theory Spec2Isabelle
  imports Main "HOL-Library.Char_ord" "HOL-Library.List_Lexorder" "HOL-Library.Product_Lexorder"
    "HOL-Library.Multiset"
begin

section \<open>Values exchanged with the outside world\<close>

text \<open>
  Python strings are modelled as \<^typ>\<open>string\<close>, one \<^typ>\<open>char\<close> per code point, which
  covers the code points U+0000 to U+00FF. Slicing \<^verbatim>\<open>s[:n]\<close> is \<^term>\<open>take n s\<close>.

  The values a JSON object member can carry are restricted to null, booleans, integers
  and strings; floats, arrays and nested objects as member values are outside the model.
  A Python \<^verbatim>\<open>None\<close> and a JSON \<^verbatim>\<open>null\<close> are the same value \<open>JNull\<close>.
\<close>

datatype json = JNull | JBool bool | JInt int | JStr string

datatype py_exn = ValueError | TypeError | OSError | OverflowError | AttributeError
  | JSONDecodeError | RecursionError

text \<open>Decimal rendering of integers, as \<^verbatim>\<open>str(n)\<close> prints them.\<close>

fun str_nat :: "nat \<Rightarrow> string" where
  "str_nat n = (if n < 10 then [''0123456789'' ! n]
                else str_nat (n div 10) @ [''0123456789'' ! (n mod 10)])"

declare str_nat.simps [simp del]

definition str_int :: "int \<Rightarrow> string" where
  "str_int i = (if i < 0 then CHR ''-'' # str_nat (nat (- i)) else str_nat (nat i))"

text \<open>\<^verbatim>\<open>str(v)\<close> and the truth value of \<^verbatim>\<open>v\<close> in a condition.\<close>

fun py_str :: "json \<Rightarrow> string" where
  "py_str JNull = ''None''"
| "py_str (JBool b) = (if b then ''True'' else ''False'')"
| "py_str (JInt i) = str_int i"
| "py_str (JStr s) = s"

fun py_truthy :: "json \<Rightarrow> bool" where
  "py_truthy JNull = False"
| "py_truthy (JBool b) = b"
| "py_truthy (JInt i) = (i \<noteq> 0)"
| "py_truthy (JStr s) = (s \<noteq> [])"

text \<open>\<^verbatim>\<open>d.get(k)\<close> and \<^verbatim>\<open>d.get(k, default)\<close> on a dictionary.\<close>

definition dict_get :: "(string \<rightharpoonup> json) \<Rightarrow> string \<Rightarrow> json" where
  "dict_get d k = (case d k of None \<Rightarrow> JNull | Some v \<Rightarrow> v)"

definition dict_get_default :: "(string \<rightharpoonup> json) \<Rightarrow> string \<Rightarrow> json \<Rightarrow> json" where
  "dict_get_default d k dflt = (case d k of None \<Rightarrow> dflt | Some v \<Rightarrow> v)"

text \<open>
  \<^verbatim>\<open>str.isdigit()\<close>: true when the string is not empty and every character is a digit.
  Below U+0100 the digits are the ten ASCII decimal digits and the superscripts
  U+00B2, U+00B3 and U+00B9.
\<close>

definition is_decimal_char :: "char \<Rightarrow> bool" where
  "is_decimal_char c = (c \<in> set ''0123456789'')"

definition is_digit_char :: "char \<Rightarrow> bool" where
  "is_digit_char c = (is_decimal_char c \<or> c \<in> {CHR 0xB2, CHR 0xB3, CHR 0xB9})"

definition isdigit :: "string \<Rightarrow> bool" where
  "isdigit s = (s \<noteq> [] \<and> list_all is_digit_char s)"

text \<open>
  \<^verbatim>\<open>int(v)\<close>. On a string the model covers the strings that reach the call, those that
  passed \<open>isdigit\<close> (no sign, blank or underscore): the conversion raises
  \<^verbatim>\<open>ValueError\<close> on a superscript digit, and on more digits than the interpreter's
  conversion limit, 4300 by default.
\<close>

definition int_max_str_digits :: nat where
  "int_max_str_digits = 4300"

definition decimal_value :: "string \<Rightarrow> nat" where
  "decimal_value s = foldl (\<lambda>acc c. 10 * acc + (of_char c - 48)) 0 s"

definition int_of_digit_str :: "string \<Rightarrow> py_exn + int" where
  "int_of_digit_str s =
     (if s = [] \<or> \<not> list_all is_decimal_char s \<or> int_max_str_digits < length s
      then Inl ValueError
      else Inr (int (decimal_value s)))"

fun py_int :: "json \<Rightarrow> py_exn + int" where
  "py_int JNull = Inl TypeError"
| "py_int (JBool b) = Inr (if b then 1 else 0)"
| "py_int (JInt i) = Inr i"
| "py_int (JStr s) = int_of_digit_str s"

text \<open>
  Binding a Python integer to an SQL parameter: SQLite integers are 64-bit signed, and
  the driver raises \<^verbatim>\<open>OverflowError\<close> outside that range.
\<close>

definition sqlite_bind_int :: "int option \<Rightarrow> py_exn + int option" where
  "sqlite_bind_int v =
     (case v of
        None \<Rightarrow> Inr None
      | Some i \<Rightarrow> if - (2 ^ 63) \<le> i \<and> i < 2 ^ 63 then Inr (Some i) else Inl OverflowError)"

subsection \<open>Time\<close>

text \<open>
  A \<^verbatim>\<open>datetime\<close> is a count of microseconds, the resolution of \<^verbatim>\<open>datetime.now()\<close>;
  a \<^verbatim>\<open>timedelta\<close> is a difference of two such counts. Every reading of the clock is an
  argument of the operation that takes it.
\<close>

type_synonym datetime = int

definition timedelta_seconds :: "int \<Rightarrow> int" where
  "timedelta_seconds n = n * 1000000"

definition OFFLINE_TIMEOUT_SECONDS :: int where
  "OFFLINE_TIMEOUT_SECONDS = 90"

section \<open>State of the monitor\<close>

record presence =
  last_heartbeat :: datetime
  ip :: string
  info :: "string \<rightharpoonup> json"

record device_info_row =
  di_hostname :: string
  di_username :: string
  di_os :: string
  di_cpu :: string
  di_memory :: string
  di_version :: string
  di_uuid :: string
  di_created_at :: datetime
  di_last_seen :: datetime
  di_last_ip :: string

record heartbeat_log =
  hl_id :: nat
  hl_device_id :: string
  hl_ip_address :: string
  hl_timestamp :: datetime
  hl_version :: "int option"

record device_note =
  dn_note :: string
  dn_updated_at :: datetime

text \<open>
  \<open>online_devices\<close> is the module-level dictionary; the other fields are the three tables
  of the monitor database, each keyed by its primary key. \<open>heartbeat_seq\<close> is the largest
  row id \<^verbatim>\<open>AUTOINCREMENT\<close> has handed out. Faults of the storage layer itself (an
  unreadable or locked database file) are not modelled.
\<close>

record server_state =
  online_devices :: "string \<rightharpoonup> presence"
  device_info :: "string \<rightharpoonup> device_info_row"
  heartbeat_logs :: "heartbeat_log list"
  heartbeat_seq :: nat
  device_notes :: "string \<rightharpoonup> device_note"

definition init_state :: server_state where
  "init_state = \<lparr>online_devices = Map.empty, device_info = Map.empty, heartbeat_logs = [],
     heartbeat_seq = 0, device_notes = Map.empty\<rparr>"

section \<open>The identity registry: \<open>RustDeskMonitor.get_all_peer_ids\<close>\<close>

text \<open>
  Lines 44 to 97 of \<^verbatim>\<open>rustdesk_server.py\<close>.
  A column of the registry's \<^verbatim>\<open>peer\<close> table holds NULL, an integer or text. The
  \<^verbatim>\<open>info\<close> column is given by what \<^verbatim>\<open>json.loads\<close> makes of it: \<open>InfoEmpty\<close> for a
  NULL or empty value (the column is not parsed), \<open>InfoRaises e raw\<close> for a value, of
  text \<open>raw\<close>, on which the parser raises \<open>e\<close>, \<open>InfoJson\<close> for a parsed document.
\<close>

datatype sql_value = SqlNull | SqlInt int | SqlText string

datatype json_doc = JsonObject "string \<rightharpoonup> json" | JsonOther

datatype info_column = InfoEmpty | InfoRaises py_exn string | InfoJson json_doc

record peer_row =
  row_id :: sql_value
  row_created_at :: sql_value
  row_info :: info_column

record peer =
  peer_id :: string
  peer_created_at :: string
  peer_ip :: string

text \<open>
  The two-character literal the source uses for "unknown" lies outside U+00FF; it is
  written here as the six bytes of its UTF-8 encoding.
\<close>

definition UNKNOWN :: string where
  "UNKNOWN = [CHR 0xE6, CHR 0x9C, CHR 0xAA, CHR 0xE7, CHR 0x9F, CHR 0xA5]"

fun sql_truthy :: "sql_value \<Rightarrow> bool" where
  "sql_truthy SqlNull = False"
| "sql_truthy (SqlInt i) = (i \<noteq> 0)"
| "sql_truthy (SqlText s) = (s \<noteq> [])"

fun sql_str :: "sql_value \<Rightarrow> string" where
  "sql_str SqlNull = ''None''"
| "sql_str (SqlInt i) = str_int i"
| "sql_str (SqlText s) = s"

text \<open>
  \<^verbatim>\<open>ORDER BY created_at ASC\<close>: SQLite puts NULL first, then numbers by value, then text
  by byte comparison. Rows with equal keys keep their table order.
\<close>

fun created_key :: "sql_value \<Rightarrow> nat \<times> int \<times> string" where
  "created_key SqlNull = (0, 0, [])"
| "created_key (SqlInt i) = (1, i, [])"
| "created_key (SqlText s) = (2, 0, s)"

definition select_peers :: "peer_row list \<Rightarrow> peer_row list" where
  "select_peers rows = sort_key (\<lambda>r. created_key (row_created_at r)) rows"

text \<open>
  \<open>fromtimestamp\<close> stands for \<^verbatim>\<open>datetime.fromtimestamp(ts).strftime(...)\<close>, which depends on
  the local time zone and the platform; it is a parameter of the model. The inner handler
  catches \<^verbatim>\<open>ValueError\<close>, \<^verbatim>\<open>TypeError\<close> and \<^verbatim>\<open>OSError\<close> only.
\<close>

definition created_time :: "(int \<Rightarrow> py_exn + string) \<Rightarrow> sql_value \<Rightarrow> py_exn + string" where
  "created_time fromtimestamp v =
     (if sql_truthy v then
        (case v of
           SqlInt ts \<Rightarrow>
             (case fromtimestamp ts of
                Inr s \<Rightarrow> Inr s
              | Inl e \<Rightarrow> if e \<in> {ValueError, TypeError, OSError} then Inr (sql_str v) else Inl e)
         | _ \<Rightarrow> Inr (sql_str v))
      else Inr UNKNOWN)"

text \<open>
  \<^verbatim>\<open>info_data\<close>, lines 68 to 73. The handler around \<^verbatim>\<open>json.loads\<close> catches
  \<^verbatim>\<open>JSONDecodeError\<close> and \<^verbatim>\<open>TypeError\<close> and keeps the raw text; any other exception of
  the parser (a plain \<^verbatim>\<open>ValueError\<close> on an integer literal beyond the digit limit, a
  \<^verbatim>\<open>RecursionError\<close>) leaves the loop.
\<close>

definition info_data :: "info_column \<Rightarrow> py_exn + json_doc" where
  "info_data c =
     (case c of
        InfoEmpty \<Rightarrow> Inr (JsonObject Map.empty)
      | InfoRaises e raw \<Rightarrow>
          if e \<in> {JSONDecodeError, TypeError} then Inr (JsonObject [''raw'' \<mapsto> JStr raw])
          else Inl e
      | InfoJson doc \<Rightarrow> Inr doc)"

text \<open>
  The \<^verbatim>\<open>'ip'\<close> entry of a peer, line 89. A document that is not an object has no
  \<^verbatim>\<open>get\<close>: the attribute lookup raises.
\<close>

definition info_ip :: "json_doc \<Rightarrow> py_exn + string" where
  "info_ip doc =
     (case doc of
        JsonOther \<Rightarrow> Inl AttributeError
      | JsonObject d \<Rightarrow>
          Inr (if py_truthy (dict_get d ''ip'')
               then py_str (dict_get_default d ''ip'' (JStr UNKNOWN)) else UNKNOWN))"

definition row_to_peer :: "(int \<Rightarrow> py_exn + string) \<Rightarrow> peer_row \<Rightarrow> py_exn + peer" where
  "row_to_peer fromtimestamp r =
     (let device_id = (if sql_truthy (row_id r) then sql_str (row_id r) else UNKNOWN) in
      case info_data (row_info r) of
        Inl e \<Rightarrow> Inl e
      | Inr doc \<Rightarrow>
          (case created_time fromtimestamp (row_created_at r) of
             Inl e \<Rightarrow> Inl e
           | Inr created \<Rightarrow>
               (case info_ip doc of
                  Inl e \<Rightarrow> Inl e
                | Inr a \<Rightarrow>
                    Inr \<lparr>peer_id = device_id, peer_created_at = created, peer_ip = a\<rparr>)))"

text \<open>The loop over the fetched rows: the first exception ends it.\<close>

fun rows_to_peers :: "(int \<Rightarrow> py_exn + string) \<Rightarrow> peer_row list \<Rightarrow> py_exn + peer list" where
  "rows_to_peers fromtimestamp [] = Inr []"
| "rows_to_peers fromtimestamp (r # rs) =
     (case row_to_peer fromtimestamp r of
        Inl e \<Rightarrow> Inl e
      | Inr p \<Rightarrow>
          (case rows_to_peers fromtimestamp rs of
             Inl e \<Rightarrow> Inl e
           | Inr ps \<Rightarrow> Inr (p # ps)))"

text \<open>
  The registry is \<open>None\<close> when its database file does not exist. Any exception inside the
  function is logged and the result is the empty list.
\<close>

definition get_all_peer_ids :: "(int \<Rightarrow> py_exn + string) \<Rightarrow> peer_row list option \<Rightarrow> peer list" where
  "get_all_peer_ids fromtimestamp registry =
     (case registry of
        None \<Rightarrow> []
      | Some rows \<Rightarrow>
          (case rows_to_peers fromtimestamp (select_peers rows) of
             Inl e \<Rightarrow> []
           | Inr peers \<Rightarrow> peers))"

section \<open>The monitor database: \<open>DatabaseManager\<close>\<close>

text \<open>
  Arguments that the source passes through \<^verbatim>\<open>str(...)\<close> have type \<^typ>\<open>json\<close>. A method
  that catches an exception leaves the database as it was: nothing had been committed.
\<close>

text \<open>
  \<open>update_device_info\<close>, lines 153 to 202. \<open>report_device_id\<close> is the device id of line
  159, \<open>report_field\<close> one of the bounded fields of lines 167 to 173.
\<close>

definition report_device_id :: "(string \<rightharpoonup> json) \<Rightarrow> string option" where
  "report_device_id body =
     (if py_truthy (dict_get body ''id'')
      then Some (py_str (dict_get_default body ''id'' (JStr ''''))) else None)"

definition report_field :: "(string \<rightharpoonup> json) \<Rightarrow> string \<Rightarrow> nat \<Rightarrow> string" where
  "report_field body k n = take n (py_str (dict_get_default body k (JStr '''')))"

definition update_device_info :: "datetime \<Rightarrow> (string \<rightharpoonup> json) \<Rightarrow> json \<Rightarrow> server_state \<Rightarrow> server_state" where
  "update_device_info now body ip_address st =
     (case report_device_id body of
        None \<Rightarrow> st
      | Some device_id \<Rightarrow>
          if device_id = [] then st
          else
            (case device_info st device_id of
               Some row \<Rightarrow>
                 st\<lparr>device_info := (device_info st)(device_id \<mapsto>
                   row\<lparr>di_hostname := report_field body ''hostname'' 255,
                       di_username := report_field body ''username'' 255,
                       di_os := report_field body ''os'' 500,
                       di_cpu := report_field body ''cpu'' 500,
                       di_memory := report_field body ''memory'' 100,
                       di_version := report_field body ''version'' 50,
                       di_uuid := report_field body ''uuid'' 255,
                       di_last_seen := now,
                       di_last_ip := take 45 (py_str ip_address)\<rparr>)\<rparr>
             | None \<Rightarrow>
                 st\<lparr>device_info := (device_info st)(device_id \<mapsto>
                   \<lparr>di_hostname = report_field body ''hostname'' 255,
                    di_username = report_field body ''username'' 255,
                    di_os = report_field body ''os'' 500,
                    di_cpu = report_field body ''cpu'' 500,
                    di_memory = report_field body ''memory'' 100,
                    di_version = report_field body ''version'' 50,
                    di_uuid = report_field body ''uuid'' 255,
                    di_created_at = now,
                    di_last_seen = now,
                    di_last_ip = take 45 (py_str ip_address)\<rparr>)\<rparr>))"

text \<open>
  \<open>log_heartbeat\<close>, lines 204 to 231. The version stored with a log entry, line 212:
  \<^verbatim>\<open>int(version) if version and str(version).isdigit() else None\<close>.
\<close>

definition heartbeat_version :: "json \<Rightarrow> py_exn + int option" where
  "heartbeat_version version =
     (if py_truthy version \<and> isdigit (py_str version)
      then (case py_int version of Inl e \<Rightarrow> Inl e | Inr i \<Rightarrow> Inr (Some i))
      else Inr None)"

text \<open>
  The trim after each insert keeps the rows whose id is among the 1000 first ids in
  descending order of timestamp; among equal timestamps the model takes the rows in
  table order.
\<close>

definition recent_ids :: "heartbeat_log list \<Rightarrow> nat list" where
  "recent_ids logs = map hl_id (take 1000 (sort_key (\<lambda>r. - hl_timestamp r) logs))"

definition trim_heartbeat_logs :: "heartbeat_log list \<Rightarrow> heartbeat_log list" where
  "trim_heartbeat_logs logs = filter (\<lambda>r. hl_id r \<in> set (recent_ids logs)) logs"

text \<open>The table after the \<^verbatim>\<open>INSERT\<close> and before the \<^verbatim>\<open>DELETE\<close>, or the exception raised.\<close>

definition insert_heartbeat_log :: "datetime \<Rightarrow> json \<Rightarrow> json \<Rightarrow> json \<Rightarrow> server_state \<Rightarrow> py_exn + heartbeat_log list" where
  "insert_heartbeat_log now device_id ip_address version st =
     (case heartbeat_version version of
        Inl e \<Rightarrow> Inl e
      | Inr v \<Rightarrow>
          (case sqlite_bind_int v of
             Inl e \<Rightarrow> Inl e
           | Inr v' \<Rightarrow>
               Inr (heartbeat_logs st @
                 [\<lparr>hl_id = Suc (heartbeat_seq st),
                   hl_device_id = take 255 (py_str device_id),
                   hl_ip_address = take 45 (py_str ip_address),
                   hl_timestamp = now,
                   hl_version = v'\<rparr>])))"

definition log_heartbeat :: "datetime \<Rightarrow> json \<Rightarrow> json \<Rightarrow> json \<Rightarrow> server_state \<Rightarrow> server_state" where
  "log_heartbeat now device_id ip_address version st =
     (case insert_heartbeat_log now device_id ip_address version st of
        Inl e \<Rightarrow> st
      | Inr logs \<Rightarrow>
          st\<lparr>heartbeat_logs := trim_heartbeat_logs logs,
             heartbeat_seq := Suc (heartbeat_seq st)\<rparr>)"

text \<open>
  \<open>get_device_info\<close>, lines 233 to 250, where an empty dictionary result is \<open>None\<close>;
  \<open>get_device_note\<close>, lines 252 to 266; \<open>update_device_note\<close>, lines 268 to 286.
\<close>

definition get_device_info :: "json \<Rightarrow> server_state \<Rightarrow> device_info_row option" where
  "get_device_info device_id st = device_info st (py_str device_id)"

definition get_device_note :: "json \<Rightarrow> server_state \<Rightarrow> string" where
  "get_device_note device_id st =
     (case device_notes st (py_str device_id) of None \<Rightarrow> [] | Some r \<Rightarrow> dn_note r)"

definition update_device_note :: "datetime \<Rightarrow> json \<Rightarrow> json \<Rightarrow> server_state \<Rightarrow> server_state" where
  "update_device_note now device_id note st =
     st\<lparr>device_notes := (device_notes st)(take 255 (py_str device_id) \<mapsto>
        \<lparr>dn_note = take 500 (py_str note), dn_updated_at = now\<rparr>)\<rparr>"

section \<open>Request handlers\<close>

text \<open>
  A request as the handlers see it: the \<^verbatim>\<open>Content-Length\<close> header when the client sent
  one (the HTTP server only lets decimal lengths through), the number of bytes of the
  body that arrives, which no handler reads, the outcome of \<^verbatim>\<open>request.json()\<close>
  (\<open>None\<close> when the body is not JSON and the call raises), and the address
  \<^verbatim>\<open>get_client_ip\<close> returns. With a \<^verbatim>\<open>Content-Length\<close> header the body has that many
  bytes; a body sent with chunked transfer encoding has no such header.
\<close>

record request =
  content_length :: "nat option"
  payload_size :: nat
  payload :: "json_doc option"
  client_ip :: string

definition well_framed :: "request \<Rightarrow> bool" where
  "well_framed req = (case content_length req of None \<Rightarrow> True | Some n \<Rightarrow> payload_size req = n)"

datatype response = Ok | HTTPError nat

definition over_limit :: "nat option \<Rightarrow> nat \<Rightarrow> bool" where
  "over_limit header limit = (case header of None \<Rightarrow> False | Some n \<Rightarrow> limit < n)"

text \<open>
  \<open>heartbeat\<close>, lines 359 to 418, and \<open>sysinfo\<close>, lines 420 to 460. \<open>t_log\<close> is the
  clock reading taken inside \<^verbatim>\<open>log_heartbeat\<close>, \<open>now\<close> the one the handler takes for
  the presence entry. An exception other than \<^verbatim>\<open>HTTPException\<close> becomes the response
  with status 500.
\<close>

definition heartbeat :: "datetime \<Rightarrow> datetime \<Rightarrow> request \<Rightarrow> server_state \<Rightarrow> response \<times> server_state" where
  "heartbeat t_log now req st =
     (if over_limit (content_length req) 10240 then (HTTPError 413, st)
      else
        (case payload req of
           None \<Rightarrow> (HTTPError 500, st)
         | Some JsonOther \<Rightarrow> (HTTPError 400, st)
         | Some (JsonObject body) \<Rightarrow>
             (let device_id = dict_get body ''id'';
                  version = dict_get_default body ''ver'' (JInt 0)
              in if py_truthy device_id then
                   (let device_id = take 255 (py_str device_id);
                        st1 = log_heartbeat t_log (JStr device_id) (JStr (client_ip req)) version st
                    in (Ok, st1\<lparr>online_devices := (online_devices st1)(device_id \<mapsto>
                          \<lparr>last_heartbeat = now, ip = client_ip req, info = body\<rparr>)\<rparr>))
                 else (Ok, st))))"

definition sysinfo :: "datetime \<Rightarrow> request \<Rightarrow> server_state \<Rightarrow> response \<times> server_state" where
  "sysinfo now req st =
     (if over_limit (content_length req) 51200 then (HTTPError 413, st)
      else
        (case payload req of
           None \<Rightarrow> (HTTPError 500, st)
         | Some JsonOther \<Rightarrow> (HTTPError 400, st)
         | Some (JsonObject body) \<Rightarrow>
             (Ok, update_device_info now body (JStr (client_ip req)) st)))"

section \<open>The aggregator: \<open>get_devices\<close>\<close>

text \<open>
  Lines 487 to 544. The presence judgment is that of lines 505 to 513.
  The rendering of \<^verbatim>\<open>last_heartbeat.strftime(...)\<close> is kept symbolic: \<open>HeartbeatAt t\<close>
  stands for the formatted string of \<open>t\<close>, \<open>Never\<close> for the literal shown when the device
  has no entry.
\<close>

datatype heartbeat_time = Never | HeartbeatAt datetime

definition presence_status :: "(string \<rightharpoonup> presence) \<Rightarrow> datetime \<Rightarrow> string \<Rightarrow> bool \<times> heartbeat_time" where
  "presence_status devs now device_id =
     (case devs device_id of
        None \<Rightarrow> (False, Never)
      | Some p \<Rightarrow>
          (now - last_heartbeat p < timedelta_seconds OFFLINE_TIMEOUT_SECONDS,
           HeartbeatAt (last_heartbeat p)))"

definition is_online :: "(string \<rightharpoonup> presence) \<Rightarrow> datetime \<Rightarrow> string \<Rightarrow> bool" where
  "is_online devs now device_id = fst (presence_status devs now device_id)"

record device =
  dev_id :: string
  dev_note :: string
  dev_created_at :: string
  dev_original_ip :: string
  dev_hostname :: string
  dev_username :: string
  dev_os :: string
  dev_cpu :: string
  dev_memory :: string
  dev_version :: string
  dev_last_ip :: string
  dev_is_online :: bool
  dev_last_heartbeat_time :: heartbeat_time

record device_list =
  total_devices :: nat
  online :: nat
  offline :: nat
  devices :: "device list"

text \<open>
  One pass of the loop body, lines 497 to 530, at the clock reading \<open>now\<close> of that
  pass.
\<close>

definition merge_device :: "datetime \<Rightarrow> server_state \<Rightarrow> peer \<Rightarrow> device" where
  "merge_device now st p =
     (let device_id = peer_id p;
          device_detail = get_device_info (JStr device_id) st;
          device_note = get_device_note (JStr device_id) st;
          (is_on, last_heartbeat_time) = presence_status (online_devices st) now device_id;
          detail = (\<lambda>f. case device_detail of None \<Rightarrow> [] | Some row \<Rightarrow> f row)
      in \<lparr>dev_id = device_id,
          dev_note = device_note,
          dev_created_at = peer_created_at p,
          dev_original_ip = peer_ip p,
          dev_hostname = detail di_hostname,
          dev_username = detail di_username,
          dev_os = detail di_os,
          dev_cpu = detail di_cpu,
          dev_memory = detail di_memory,
          dev_version = detail di_version,
          dev_last_ip = (case device_detail of None \<Rightarrow> peer_ip p | Some row \<Rightarrow> di_last_ip row),
          dev_is_online = is_on,
          dev_last_heartbeat_time = last_heartbeat_time\<rparr>)"

text \<open>
  \<open>clock i\<close> is the clock reading of the \<open>i\<close>-th pass of the loop. No operation of the body
  raises, so the handler always returns the listing.
\<close>

definition get_devices :: "(nat \<Rightarrow> datetime) \<Rightarrow> (int \<Rightarrow> py_exn + string) \<Rightarrow> peer_row list option \<Rightarrow> server_state \<Rightarrow> device_list" where
  "get_devices clock fromtimestamp registry st =
     (let all_peers = get_all_peer_ids fromtimestamp registry;
          devs = map (\<lambda>(i, p). merge_device (clock i) st p) (enumerate 0 all_peers);
          online_count = length (filter dev_is_online devs)
      in \<lparr>total_devices = length devs,
          online = online_count,
          offline = length devs - online_count,
          devices = devs\<rparr>)"

section \<open>Sequences of calls\<close>

text \<open>
  A run of \<open>log_heartbeat\<close> calls, each with its clock reading, device id, address and
  version, and a run of \<open>update_device_info\<close> calls, each with its clock reading, report
  and address.
\<close>

fun log_heartbeat_calls :: "(datetime \<times> json \<times> json \<times> json) list \<Rightarrow> server_state \<Rightarrow> server_state" where
  "log_heartbeat_calls [] st = st"
| "log_heartbeat_calls ((t, d, a, v) # cs) st = log_heartbeat_calls cs (log_heartbeat t d a v st)"

fun update_device_info_calls :: "(datetime \<times> (string \<rightharpoonup> json) \<times> json) list \<Rightarrow> server_state \<Rightarrow> server_state" where
  "update_device_info_calls [] st = st"
| "update_device_info_calls ((t, body, a) # cs) st =
     update_device_info_calls cs (update_device_info t body a st)"

text \<open>The calls of a run that report for device \<open>d\<close>.\<close>

definition calls_for :: "string \<Rightarrow> (datetime \<times> (string \<rightharpoonup> json) \<times> json) list \<Rightarrow> (datetime \<times> (string \<rightharpoonup> json) \<times> json) list" where
  "calls_for d cs = filter (\<lambda>(t, body, a). report_device_id body = Some d) cs"

text \<open>
  The row ids of the log are distinct and none exceeds the sequence counter, as the
  \<^verbatim>\<open>INTEGER PRIMARY KEY AUTOINCREMENT\<close> column guarantees.
\<close>

definition log_ids_ok :: "server_state \<Rightarrow> bool" where
  "log_ids_ok st =
     (distinct (map hl_id (heartbeat_logs st)) \<and>
      list_all (\<lambda>r. hl_id r \<le> heartbeat_seq st) (heartbeat_logs st))"

section \<open>Example inputs\<close>

text \<open>
  A registry of two identities, B listed first but A seen first, a presence table in which
  only A has sent a heartbeat, ten seconds after the origin of the clock, and a stand-in
  for the time formatting that always fails with a caught error.
\<close>

definition example_registry :: "peer_row list option" where
  "example_registry = Some
     [\<lparr>row_id = SqlText ''B'', row_created_at = SqlText ''2024-01-02 08:00:00'', row_info = InfoEmpty\<rparr>,
      \<lparr>row_id = SqlText ''A'', row_created_at = SqlText ''2024-01-01 08:00:00'',
        row_info = InfoJson (JsonObject [''ip'' \<mapsto> JStr ''10.0.0.7''])\<rparr>]"

definition example_presence :: "string \<rightharpoonup> presence" where
  "example_presence = [''A'' \<mapsto> \<lparr>last_heartbeat = 10000000, ip = ''10.0.0.7'', info = Map.empty\<rparr>]"

definition no_fromtimestamp :: "int \<Rightarrow> py_exn + string" where
  "no_fromtimestamp ts = Inl OSError"

text \<open>
  A heartbeat request of device A with protocol version 3. A run of \<open>n\<close> logged
  heartbeats of device A, the \<open>i\<close>-th at clock reading \<open>i\<close>, and the row the \<open>i\<close>-th
  call stores.
\<close>

definition example_heartbeat :: request where
  "example_heartbeat = \<lparr>content_length = Some 18, payload_size = 18,
     payload = Some (JsonObject [''id'' \<mapsto> JStr ''A'', ''ver'' \<mapsto> JInt 3]),
     client_ip = ''10.0.0.7''\<rparr>"

definition log_row :: "nat \<Rightarrow> heartbeat_log" where
  "log_row i = \<lparr>hl_id = i, hl_device_id = ''A'', hl_ip_address = ''10.0.0.1'',
     hl_timestamp = int i, hl_version = None\<rparr>"

definition full_log_calls :: "nat \<Rightarrow> (datetime \<times> json \<times> json \<times> json) list" where
  "full_log_calls n = map (\<lambda>i. (int i, JStr ''A'', JStr ''10.0.0.1'', JNull)) [1..<Suc n]"

text \<open>
  Three system-info reports: device A at 100, device B at 180, device A again at 250.
  A system-info request for a device X that the example registry does not list.
\<close>

definition example_reports :: "(datetime \<times> (string \<rightharpoonup> json) \<times> json) list" where
  "example_reports =
     [(100, [''id'' \<mapsto> JStr ''A'', ''hostname'' \<mapsto> JStr ''alpha''], JStr ''10.0.0.7''),
      (180, [''id'' \<mapsto> JStr ''B''], JStr ''10.0.0.8''),
      (250, [''id'' \<mapsto> JStr ''A'', ''hostname'' \<mapsto> JStr ''alpha2''], JStr ''10.0.0.9'')]"

definition example_sysinfo :: request where
  "example_sysinfo = \<lparr>content_length = Some 31, payload_size = 31,
     payload = Some (JsonObject [''id'' \<mapsto> JStr ''X'', ''hostname'' \<mapsto> JStr ''xray'']),
     client_ip = ''10.0.0.9''\<rparr>"

text \<open>
  Heartbeat requests: one whose device id is the empty string, one that carries no
  device id, and one of 15000 bytes sent with chunked transfer encoding, so without a
  \<^verbatim>\<open>Content-Length\<close> header. A device id of 256 characters.
\<close>

definition empty_id_heartbeat :: request where
  "empty_id_heartbeat = \<lparr>content_length = Some 10, payload_size = 10,
     payload = Some (JsonObject [''id'' \<mapsto> JStr '''']), client_ip = ''10.0.0.5''\<rparr>"

definition no_id_heartbeat :: request where
  "no_id_heartbeat = \<lparr>content_length = Some 10, payload_size = 10,
     payload = Some (JsonObject [''ver'' \<mapsto> JInt 3]), client_ip = ''10.0.0.5''\<rparr>"

definition chunked_oversize_heartbeat :: request where
  "chunked_oversize_heartbeat = \<lparr>content_length = None, payload_size = 15000,
     payload = Some (JsonObject [''id'' \<mapsto> JStr ''A'', ''pad'' \<mapsto> JStr (replicate 14981 (CHR ''x''))]),
     client_ip = ''10.0.0.5''\<rparr>"

definition long_device_id :: string where
  "long_device_id = replicate 256 (CHR ''a'')"

text \<open>
  A registry of three identities in which the \<^verbatim>\<open>info\<close> of B is a JSON array. Two
  reports of device A, the second at an earlier clock reading than the first. Heartbeat
  requests that declare 15000 bytes, that carry no JSON, and that carry a JSON array.
\<close>

definition broken_registry :: "peer_row list option" where
  "broken_registry = Some
     [\<lparr>row_id = SqlText ''A'', row_created_at = SqlText ''2024-01-01 08:00:00'',
        row_info = InfoJson (JsonObject [''ip'' \<mapsto> JStr ''10.0.0.7''])\<rparr>,
      \<lparr>row_id = SqlText ''B'', row_created_at = SqlText ''2024-01-02 08:00:00'',
        row_info = InfoJson JsonOther\<rparr>,
      \<lparr>row_id = SqlText ''C'', row_created_at = SqlText ''2024-01-03 08:00:00'',
        row_info = InfoJson (JsonObject [''ip'' \<mapsto> JStr ''10.0.0.9''])\<rparr>]"

definition backward_reports :: "(datetime \<times> (string \<rightharpoonup> json) \<times> json) list" where
  "backward_reports =
     [(500, [''id'' \<mapsto> JStr ''A''], JStr ''10.0.0.7''),
      (400, [''id'' \<mapsto> JStr ''A''], JStr ''10.0.0.7'')]"

definition declared_oversize_heartbeat :: request where
  "declared_oversize_heartbeat = \<lparr>content_length = Some 15000, payload_size = 15000,
     payload = Some (JsonObject [''id'' \<mapsto> JStr ''A'', ''pad'' \<mapsto> JStr (replicate 14981 (CHR ''x''))]),
     client_ip = ''10.0.0.5''\<rparr>"

definition not_json_heartbeat :: request where
  "not_json_heartbeat = \<lparr>content_length = Some 5, payload_size = 5, payload = None,
     client_ip = ''10.0.0.5''\<rparr>"

definition array_heartbeat :: request where
  "array_heartbeat = \<lparr>content_length = Some 5, payload_size = 5, payload = Some JsonOther,
     client_ip = ''10.0.0.5''\<rparr>"

section \<open>The online judgment\<close>

lemma dev_fields_merge:
  "dev_id (merge_device now st p) = peer_id p"
  "dev_is_online (merge_device now st p) = is_online (online_devices st) now (peer_id p)"
  "dev_original_ip (merge_device now st p) = peer_ip p"
  "dev_last_ip (merge_device now st p) =
     (case get_device_info (JStr (peer_id p)) st of None \<Rightarrow> peer_ip p | Some row \<Rightarrow> di_last_ip row)"
  by (simp_all add: merge_device_def Let_def is_online_def split: prod.splits)

lemma log_heartbeat_online_devices:
  "online_devices (log_heartbeat t d a v st) = online_devices st"
  by (simp add: log_heartbeat_def split: sum.splits)

lemma heartbeat_records_presence:
  assumes "payload req = Some (JsonObject body)"
    and "\<not> over_limit (content_length req) 10240"
    and "py_truthy (dict_get body ''id'')"
  shows "online_devices (snd (heartbeat t_log t req st)) (take 255 (py_str (dict_get body ''id''))) =
           Some \<lparr>last_heartbeat = t, ip = client_ip req, info = body\<rparr>"
  using assms by (simp add: heartbeat_def Let_def)

text \<open>
  Claim C1. A device with a presence entry whose last heartbeat is at \<open>last_heartbeat p\<close> is
  judged online at \<open>now\<close> exactly when \<open>now - last_heartbeat p\<close> is strictly below the
  timeout of 90 seconds (in microseconds here); at exactly 90 seconds it is offline, and a
  device without a presence entry is offline. The judgment is the \<open>is_online\<close> field of the
  merged entry. In particular, after an accepted heartbeat of a device recorded at \<open>t\<close>,
  the device is online at \<open>now\<close> exactly when \<open>now - t\<close> is below 90 seconds.
\<close>

theorem is_online_iff_within_timeout:
  "(devs d = Some p \<longrightarrow>
      (is_online devs now d \<longleftrightarrow> now - last_heartbeat p < 90 * 1000000)) \<and>
   (devs d = Some p \<longrightarrow> now - last_heartbeat p = 90 * 1000000 \<longrightarrow> \<not> is_online devs now d) \<and>
   (devs d = None \<longrightarrow> \<not> is_online devs now d) \<and>
   dev_is_online (merge_device now st pr) = is_online (online_devices st) now (peer_id pr) \<and>
   (payload req = Some (JsonObject body) \<longrightarrow> \<not> over_limit (content_length req) 10240 \<longrightarrow>
    py_truthy (dict_get body ''id'') \<longrightarrow>
      (is_online (online_devices (snd (heartbeat t_log t req st))) now
         (take 255 (py_str (dict_get body ''id''))) \<longleftrightarrow> now - t < 90 * 1000000))"
proof -
  have judge: "is_online devs now d \<longleftrightarrow> now - last_heartbeat p < 90 * 1000000"
    if "devs d = Some p" for devs d p
    using that
    by (simp add: is_online_def presence_status_def timedelta_seconds_def
        OFFLINE_TIMEOUT_SECONDS_def)
  have absent: "\<not> is_online devs now d" if "devs d = None"
    using that by (simp add: is_online_def presence_status_def)
  have after: "is_online (online_devices (snd (heartbeat t_log t req st))) now
         (take 255 (py_str (dict_get body ''id''))) \<longleftrightarrow> now - t < 90 * 1000000"
    if "payload req = Some (JsonObject body)" "\<not> over_limit (content_length req) 10240"
      "py_truthy (dict_get body ''id'')"
    using heartbeat_records_presence[OF that, of t_log t st]
      judge[of "online_devices (snd (heartbeat t_log t req st))"
        "take 255 (py_str (dict_get body ''id''))"
        "\<lparr>last_heartbeat = t, ip = client_ip req, info = body\<rparr>"]
    by simp
  show ?thesis
    using judge[of devs d p] absent after by (auto simp: dev_fields_merge)
qed

theorem is_online_iff_within_timeout_witness:
  "is_online example_presence 99999999 ''A'' \<and> \<not> is_online example_presence 100000000 ''A'' \<and>
   \<not> is_online example_presence 99999999 ''B'' \<and>
   is_online (online_devices (snd (heartbeat 9999000 10000000 example_heartbeat init_state)))
     99999999 ''A'' \<and>
   \<not> is_online (online_devices (snd (heartbeat 9999000 10000000 example_heartbeat init_state)))
     100000000 ''A''"
  using is_online_iff_within_timeout[of example_presence "''A''"
          "\<lparr>last_heartbeat = 10000000, ip = ''10.0.0.7'', info = Map.empty\<rparr>" 99999999 init_state _
          example_heartbeat "[''id'' \<mapsto> JStr ''A'', ''ver'' \<mapsto> JInt 3]" 9999000 10000000]
        is_online_iff_within_timeout[of example_presence "''A''"
          "\<lparr>last_heartbeat = 10000000, ip = ''10.0.0.7'', info = Map.empty\<rparr>" 100000000 init_state _
          example_heartbeat "[''id'' \<mapsto> JStr ''A'', ''ver'' \<mapsto> JInt 3]" 9999000 10000000]
        is_online_iff_within_timeout[of example_presence "''B''" _ 99999999]
  by (simp add: example_presence_def example_heartbeat_def over_limit_def dict_get_def)

section \<open>The listing\<close>

lemma devices_get_devices:
  "devices (get_devices clock f reg st) =
     map (\<lambda>(i, p). merge_device (clock i) st p) (enumerate 0 (get_all_peer_ids f reg))"
  by (simp add: get_devices_def Let_def)

lemma counts_get_devices:
  "total_devices (get_devices clock f reg st) = length (devices (get_devices clock f reg st))"
  "online (get_devices clock f reg st) = length (filter dev_is_online (devices (get_devices clock f reg st)))"
  "offline (get_devices clock f reg st) =
     length (devices (get_devices clock f reg st)) - length (filter dev_is_online (devices (get_devices clock f reg st)))"
  by (simp_all add: get_devices_def Let_def)

lemma devices_length: "length (devices (get_devices clock f reg st)) = length (get_all_peer_ids f reg)"
  by (simp add: devices_get_devices)

lemma devices_nth:
  "i < length (get_all_peer_ids f reg) \<Longrightarrow>
     devices (get_devices clock f reg st) ! i = merge_device (clock i) st (get_all_peer_ids f reg ! i)"
  by (simp add: devices_get_devices nth_enumerate_eq)

lemma devices_ids: "map dev_id (devices (get_devices clock f reg st)) = map peer_id (get_all_peer_ids f reg)"
  by (rule nth_equalityI) (simp_all add: devices_length devices_nth dev_fields_merge)

lemma rows_to_peers_length:
  "rows_to_peers f rs = Inr ps \<Longrightarrow> length ps = length rs"
  by (induction rs arbitrary: ps) (auto split: sum.splits)

lemma rows_to_peers_nth:
  "rows_to_peers f rs = Inr ps \<Longrightarrow> i < length rs \<Longrightarrow> row_to_peer f (rs ! i) = Inr (ps ! i)"
proof (induction rs arbitrary: ps i)
  case Nil
  then show ?case by simp
next
  case (Cons r rs)
  then show ?case by (cases i) (auto split: sum.splits)
qed

lemma select_peers_props:
  "mset (select_peers rows) = mset rows"
  "length (select_peers rows) = length rows"
  "sorted (map (\<lambda>r. created_key (row_created_at r)) (select_peers rows))"
  by (simp_all add: select_peers_def)

text \<open>
  The listing follows the peers \<open>get_all_peer_ids\<close> returns: one entry per peer, in the
  order of the peers, the \<open>i\<close>-th entry being the merge of the \<open>i\<close>-th peer;
  \<open>total_devices\<close> is the number of peers, \<open>online\<close> the number of entries judged online,
  and \<open>offline\<close> their difference. When the query over the registry's rows raises
  nothing, the peers are the rows, one peer per row, in ascending order of \<open>created_at\<close>.
\<close>

lemma get_devices_follows_peers:
  "length (devices (get_devices clock f reg st)) = length (get_all_peer_ids f reg) \<and>
   map dev_id (devices (get_devices clock f reg st)) = map peer_id (get_all_peer_ids f reg) \<and>
   (\<forall>i < length (get_all_peer_ids f reg).
      devices (get_devices clock f reg st) ! i = merge_device (clock i) st (get_all_peer_ids f reg ! i)) \<and>
   total_devices (get_devices clock f reg st) = length (get_all_peer_ids f reg) \<and>
   online (get_devices clock f reg st) =
     length (filter dev_is_online (devices (get_devices clock f reg st))) \<and>
   online (get_devices clock f reg st) \<le> total_devices (get_devices clock f reg st) \<and>
   offline (get_devices clock f reg st) =
     total_devices (get_devices clock f reg st) - online (get_devices clock f reg st) \<and>
   (\<forall>rows ps. reg = Some rows \<longrightarrow> rows_to_peers f (select_peers rows) = Inr ps \<longrightarrow>
      get_all_peer_ids f reg = ps \<and> length ps = length rows \<and>
      mset (select_peers rows) = mset rows \<and>
      sorted (map (\<lambda>r. created_key (row_created_at r)) (select_peers rows)) \<and>
      (\<forall>i < length rows. row_to_peer f (select_peers rows ! i) = Inr (ps ! i)))"
proof -
  have reg_ok: "get_all_peer_ids f reg = ps \<and> length ps = length rows \<and>
      (\<forall>i < length rows. row_to_peer f (select_peers rows ! i) = Inr (ps ! i))"
    if "reg = Some rows" and "rows_to_peers f (select_peers rows) = Inr ps" for rows ps
    using that rows_to_peers_length[OF that(2)] rows_to_peers_nth[OF that(2)]
    by (simp add: get_all_peer_ids_def select_peers_props)
  have le: "length (filter dev_is_online (devices (get_devices clock f reg st)))
      \<le> length (get_all_peer_ids f reg)"
    using length_filter_le[of dev_is_online "devices (get_devices clock f reg st)"]
    by (simp add: devices_length)
  show ?thesis
    using reg_ok le
    by (simp add: devices_length devices_ids devices_nth counts_get_devices select_peers_props)
qed

lemma example_peers:
  "get_all_peer_ids no_fromtimestamp example_registry =
     [\<lparr>peer_id = ''A'', peer_created_at = ''2024-01-01 08:00:00'', peer_ip = ''10.0.0.7''\<rparr>,
      \<lparr>peer_id = ''B'', peer_created_at = ''2024-01-02 08:00:00'', peer_ip = UNKNOWN\<rparr>]"
  by (simp add: example_registry_def select_peers_def get_all_peer_ids_def row_to_peer_def
      created_time_def info_data_def info_ip_def dict_get_def dict_get_default_def)

lemma example_listing:
  "map dev_id (devices (get_devices (\<lambda>i. 50000000) no_fromtimestamp example_registry
       (init_state\<lparr>online_devices := example_presence\<rparr>))) = [''A'', ''B''] \<and>
   map dev_is_online (devices (get_devices (\<lambda>i. 50000000) no_fromtimestamp example_registry
       (init_state\<lparr>online_devices := example_presence\<rparr>))) = [True, False] \<and>
   total_devices (get_devices (\<lambda>i. 50000000) no_fromtimestamp example_registry
       (init_state\<lparr>online_devices := example_presence\<rparr>)) = 2 \<and>
   online (get_devices (\<lambda>i. 50000000) no_fromtimestamp example_registry
       (init_state\<lparr>online_devices := example_presence\<rparr>)) = 1 \<and>
   offline (get_devices (\<lambda>i. 50000000) no_fromtimestamp example_registry
       (init_state\<lparr>online_devices := example_presence\<rparr>)) = 1"
  using get_devices_follows_peers[of "\<lambda>i. 50000000" no_fromtimestamp example_registry
          "init_state\<lparr>online_devices := example_presence\<rparr>"]
  by (simp add: example_peers devices_get_devices counts_get_devices dev_fields_merge
      is_online_def presence_status_def example_presence_def timedelta_seconds_def
      OFFLINE_TIMEOUT_SECONDS_def)

text \<open>
  The query gives up on the first row it cannot convert: a row whose \<^verbatim>\<open>info\<close> is a
  JSON document other than an object empties the whole result, and so does a row on
  which the parser raises an exception the handler of line 72 does not catch.
\<close>

lemma rows_to_peers_all_rows:
  "rows_to_peers f rs = Inr ps \<Longrightarrow> r \<in> set rs \<Longrightarrow> \<exists>p. row_to_peer f r = Inr p"
  by (induction rs arbitrary: ps) (auto split: sum.splits)

lemma get_all_peer_ids_non_object_info:
  assumes "r \<in> set rows" "row_info r = InfoJson JsonOther"
  shows "get_all_peer_ids f (Some rows) = []"
proof (cases "rows_to_peers f (select_peers rows)")
  case (Inl e)
  then show ?thesis by (simp add: get_all_peer_ids_def)
next
  case (Inr ps)
  have "r \<in> set (select_peers rows)" using assms(1) by (simp add: select_peers_def)
  from rows_to_peers_all_rows[OF Inr this] assms(2) show ?thesis
    by (auto simp: row_to_peer_def info_data_def info_ip_def Let_def split: sum.splits)
qed

lemma get_all_peer_ids_parser_raises:
  assumes "r \<in> set rows" "row_info r = InfoRaises e raw" "e \<notin> {JSONDecodeError, TypeError}"
  shows "get_all_peer_ids f (Some rows) = []"
proof (cases "rows_to_peers f (select_peers rows)")
  case (Inl e')
  then show ?thesis by (simp add: get_all_peer_ids_def)
next
  case (Inr ps)
  have "r \<in> set (select_peers rows)" using assms(1) by (simp add: select_peers_def)
  from rows_to_peers_all_rows[OF Inr this] assms(2,3) show ?thesis
    by (auto simp: row_to_peer_def info_data_def Let_def split: sum.splits)
qed

text \<open>
  Claim C2 does not hold of the code. The registry of three identities, one of which has
  a JSON array as \<^verbatim>\<open>info\<close>, makes the query raise on that row; the query returns no
  peer at all, and the listing is empty with a total of 0, where the claim has one entry
  for each of the three identities.
\<close>

theorem get_devices_empty_on_non_object_info:
  "map_option length broken_registry = Some 3 \<and>
   get_all_peer_ids f broken_registry = [] \<and>
   devices (get_devices clock f broken_registry st) = [] \<and>
   total_devices (get_devices clock f broken_registry st) = 0"
proof -
  have "get_all_peer_ids f broken_registry = []"
    unfolding broken_registry_def
    by (rule get_all_peer_ids_non_object_info[where r = "\<lparr>row_id = SqlText ''B'',
        row_created_at = SqlText ''2024-01-02 08:00:00'', row_info = InfoJson JsonOther\<rparr>"])
      simp_all
  then show ?thesis
    by (simp add: devices_get_devices counts_get_devices broken_registry_def)
qed

text \<open>
  Claim C10. For every peer of the registry that has no row in the telemetry store, the
  merged entry reports as \<open>last_ip\<close> the address the registry recorded for the peer, the
  same value as its \<open>original_ip\<close>.
\<close>

theorem last_ip_falls_back_to_registry_ip:
  "\<forall>i < length (get_all_peer_ids f reg).
     get_device_info (JStr (peer_id (get_all_peer_ids f reg ! i))) st = None \<longrightarrow>
       dev_last_ip (devices (get_devices clock f reg st) ! i) = peer_ip (get_all_peer_ids f reg ! i) \<and>
       dev_original_ip (devices (get_devices clock f reg st) ! i) = peer_ip (get_all_peer_ids f reg ! i)"
  by (simp add: devices_nth dev_fields_merge)

theorem last_ip_falls_back_to_registry_ip_witness:
  "map dev_last_ip (devices (get_devices (\<lambda>i. 50000000) no_fromtimestamp example_registry init_state))
     = [''10.0.0.7'', UNKNOWN]"
  using last_ip_falls_back_to_registry_ip[of no_fromtimestamp example_registry init_state
      "\<lambda>i. 50000000"]
  by (simp add: example_peers devices_get_devices dev_fields_merge get_device_info_def
      init_state_def)

section \<open>The heartbeat log\<close>

lemma trim_eq_filter_recent:
  assumes "distinct (map hl_id logs)"
  shows "trim_heartbeat_logs logs =
         filter (\<lambda>r. r \<in> set (take 1000 (sort_key (\<lambda>r. - hl_timestamp r) logs))) logs"
proof -
  let ?T = "take 1000 (sort_key (\<lambda>r. - hl_timestamp r) logs)"
  have sub: "set ?T \<subseteq> set logs"
    using set_take_subset[of 1000 "sort_key (\<lambda>r. - hl_timestamp r) logs"] by simp
  have inj: "inj_on hl_id (set logs)"
    using assms by (simp add: distinct_map)
  have "(hl_id r \<in> set (recent_ids logs)) = (r \<in> set ?T)" if "r \<in> set logs" for r
  proof
    assume "hl_id r \<in> set (recent_ids logs)"
    then obtain k where k: "k \<in> set ?T" "hl_id k = hl_id r"
      by (auto simp: recent_ids_def)
    with sub that inj have "k = r" by (auto dest: inj_onD)
    with k show "r \<in> set ?T" by simp
  next
    assume "r \<in> set ?T"
    then show "hl_id r \<in> set (recent_ids logs)" by (simp add: recent_ids_def)
  qed
  then show ?thesis
    unfolding trim_heartbeat_logs_def by (intro filter_cong) simp_all
qed

lemma set_trim:
  assumes "distinct (map hl_id logs)"
  shows "set (trim_heartbeat_logs logs) = set (take 1000 (sort_key (\<lambda>r. - hl_timestamp r) logs))"
proof -
  have "set (take 1000 (sort_key (\<lambda>r. - hl_timestamp r) logs)) \<subseteq> set logs"
    using set_take_subset[of 1000 "sort_key (\<lambda>r. - hl_timestamp r) logs"] by simp
  then show ?thesis
    by (auto simp: trim_eq_filter_recent[OF assms])
qed

lemma length_trim:
  assumes "distinct (map hl_id logs)"
  shows "length (trim_heartbeat_logs logs) = min 1000 (length logs)"
proof -
  let ?T = "take 1000 (sort_key (\<lambda>r. - hl_timestamp r) logs)"
  have dl: "distinct logs" using assms by (simp add: distinct_map)
  then have dT: "distinct ?T" by simp
  have dtrim: "distinct (trim_heartbeat_logs logs)"
    using dl by (simp add: trim_heartbeat_logs_def)
  have "length (trim_heartbeat_logs logs) = card (set (trim_heartbeat_logs logs))"
    using dtrim by (simp add: distinct_card)
  also have "\<dots> = card (set ?T)" by (simp add: set_trim[OF assms])
  also have "\<dots> = length ?T" using dT by (rule distinct_card)
  finally show ?thesis by simp
qed

lemma trim_evicts_oldest:
  assumes d: "distinct (map hl_id logs)"
    and e: "e \<in> set logs" "e \<notin> set (trim_heartbeat_logs logs)"
    and k: "k \<in> set (trim_heartbeat_logs logs)"
  shows "hl_timestamp e \<le> hl_timestamp k"
proof -
  let ?S = "sort_key (\<lambda>r. - hl_timestamp r) logs"
  have kT: "k \<in> set (take 1000 ?S)" using k by (simp add: set_trim[OF d])
  have "e \<notin> set (take 1000 ?S)" using e by (simp add: set_trim[OF d])
  moreover have "e \<in> set (take 1000 ?S @ drop 1000 ?S)" using e by simp
  ultimately have eD: "e \<in> set (drop 1000 ?S)" by (simp del: append_take_drop_id)
  have "sorted (map (\<lambda>r. - hl_timestamp r) (take 1000 ?S @ drop 1000 ?S))" by simp
  then have "\<forall>x\<in>set (take 1000 ?S). \<forall>y\<in>set (drop 1000 ?S). - hl_timestamp x \<le> - hl_timestamp y"
    by (simp only: map_append sorted_append) auto
  with kT eD show ?thesis by auto
qed

lemma insert_heartbeat_log_shape:
  assumes "insert_heartbeat_log t d a v st = Inr logs"
  shows "\<exists>ver. logs = heartbeat_logs st @
           [\<lparr>hl_id = Suc (heartbeat_seq st), hl_device_id = take 255 (py_str d),
             hl_ip_address = take 45 (py_str a), hl_timestamp = t, hl_version = ver\<rparr>]"
  using assms by (auto simp: insert_heartbeat_log_def split: sum.splits)

lemma insert_keeps_ids_distinct:
  assumes "log_ids_ok st" "insert_heartbeat_log t d a v st = Inr logs"
  shows "distinct (map hl_id logs)"
    and "list_all (\<lambda>r. hl_id r \<le> Suc (heartbeat_seq st)) logs"
proof -
  from insert_heartbeat_log_shape[OF assms(2)] obtain ver where
    logs: "logs = heartbeat_logs st @
           [\<lparr>hl_id = Suc (heartbeat_seq st), hl_device_id = take 255 (py_str d),
             hl_ip_address = take 45 (py_str a), hl_timestamp = t, hl_version = ver\<rparr>]"
    by blast
  have le: "\<forall>r\<in>set (heartbeat_logs st). hl_id r \<le> heartbeat_seq st"
    using assms(1) by (simp add: log_ids_ok_def list_all_iff)
  then have "Suc (heartbeat_seq st) \<notin> hl_id ` set (heartbeat_logs st)" by auto
  then show "distinct (map hl_id logs)"
    using assms(1) by (simp add: logs log_ids_ok_def)
  show "list_all (\<lambda>r. hl_id r \<le> Suc (heartbeat_seq st)) logs"
    using le by (auto simp: logs list_all_iff)
qed

lemma log_heartbeat_ids_ok:
  assumes "log_ids_ok st"
  shows "log_ids_ok (log_heartbeat t d a v st)"
proof (cases "insert_heartbeat_log t d a v st")
  case (Inl e)
  then show ?thesis using assms by (simp add: log_heartbeat_def)
next
  case (Inr logs)
  note ins = insert_keeps_ids_distinct[OF assms Inr]
  have "distinct (map hl_id (trim_heartbeat_logs logs))"
    using ins(1) by (simp add: trim_heartbeat_logs_def distinct_map_filter)
  moreover have "list_all (\<lambda>r. hl_id r \<le> Suc (heartbeat_seq st)) (trim_heartbeat_logs logs)"
    using ins(2) by (auto simp: trim_heartbeat_logs_def list_all_iff)
  ultimately show ?thesis using Inr by (simp add: log_heartbeat_def log_ids_ok_def)
qed

lemma log_heartbeat_calls_ids_ok:
  "log_ids_ok st \<Longrightarrow> log_ids_ok (log_heartbeat_calls cs st)"
  by (induction cs st rule: log_heartbeat_calls.induct) (simp_all add: log_heartbeat_ids_ok)

lemma init_state_ids_ok: "log_ids_ok init_state"
  by (simp add: log_ids_ok_def init_state_def)

lemma log_heartbeat_length:
  assumes "log_ids_ok st" "length (heartbeat_logs st) \<le> 1000"
  shows "length (heartbeat_logs (log_heartbeat t d a v st)) \<le> 1000"
proof (cases "insert_heartbeat_log t d a v st")
  case (Inl e)
  then show ?thesis using assms by (simp add: log_heartbeat_def)
next
  case (Inr logs)
  then show ?thesis
    using length_trim[OF insert_keeps_ids_distinct(1)[OF assms(1) Inr]]
    by (simp add: log_heartbeat_def)
qed

lemma log_heartbeat_calls_length:
  "log_ids_ok st \<Longrightarrow> length (heartbeat_logs st) \<le> 1000 \<Longrightarrow>
     length (heartbeat_logs (log_heartbeat_calls cs st)) \<le> 1000"
  by (induction cs st rule: log_heartbeat_calls.induct)
     (simp_all add: log_heartbeat_ids_ok log_heartbeat_length)

text \<open>
  Claim C3. After any run of \<open>log_heartbeat\<close> calls from the empty database the log holds
  at most 1000 entries. For one more call: when the insert succeeds, the log becomes the
  trimmed table, which keeps \<open>min 1000 n\<close> of the \<open>n\<close> rows present after the insert, and
  every row the trim removes has a timestamp no newer than every row it keeps; when the
  insert raises, the log is unchanged.
\<close>

theorem heartbeat_log_bounded_oldest_evicted:
  "length (heartbeat_logs (log_heartbeat_calls cs init_state)) \<le> 1000 \<and>
   (\<forall>logs. insert_heartbeat_log t d a v (log_heartbeat_calls cs init_state) = Inr logs \<longrightarrow>
      heartbeat_logs (log_heartbeat t d a v (log_heartbeat_calls cs init_state)) =
        trim_heartbeat_logs logs \<and>
      set (trim_heartbeat_logs logs) \<subseteq> set logs \<and>
      length (trim_heartbeat_logs logs) = min 1000 (length logs) \<and>
      (\<forall>e\<in>set logs. e \<notin> set (trim_heartbeat_logs logs) \<longrightarrow>
         (\<forall>k\<in>set (trim_heartbeat_logs logs). hl_timestamp e \<le> hl_timestamp k))) \<and>
   (\<forall>e. insert_heartbeat_log t d a v (log_heartbeat_calls cs init_state) = Inl e \<longrightarrow>
      heartbeat_logs (log_heartbeat t d a v (log_heartbeat_calls cs init_state)) =
        heartbeat_logs (log_heartbeat_calls cs init_state))"
proof -
  let ?st = "log_heartbeat_calls cs init_state"
  have ok: "log_ids_ok ?st"
    by (rule log_heartbeat_calls_ids_ok[OF init_state_ids_ok])
  have bound: "length (heartbeat_logs ?st) \<le> 1000"
    by (rule log_heartbeat_calls_length[OF init_state_ids_ok]) (simp add: init_state_def)
  have trim: "heartbeat_logs (log_heartbeat t d a v ?st) = trim_heartbeat_logs logs \<and>
      set (trim_heartbeat_logs logs) \<subseteq> set logs \<and>
      length (trim_heartbeat_logs logs) = min 1000 (length logs) \<and>
      (\<forall>e\<in>set logs. e \<notin> set (trim_heartbeat_logs logs) \<longrightarrow>
         (\<forall>k\<in>set (trim_heartbeat_logs logs). hl_timestamp e \<le> hl_timestamp k))"
    if ins: "insert_heartbeat_log t d a v ?st = Inr logs" for logs
  proof -
    have dist: "distinct (map hl_id logs)"
      by (rule insert_keeps_ids_distinct(1)[OF ok ins])
    have "heartbeat_logs (log_heartbeat t d a v ?st) = trim_heartbeat_logs logs"
      using ins by (simp add: log_heartbeat_def)
    moreover have "set (trim_heartbeat_logs logs) \<subseteq> set logs"
      by (auto simp: trim_heartbeat_logs_def)
    moreover note length_trim[OF dist]
    moreover have "\<forall>e\<in>set logs. e \<notin> set (trim_heartbeat_logs logs) \<longrightarrow>
         (\<forall>k\<in>set (trim_heartbeat_logs logs). hl_timestamp e \<le> hl_timestamp k)"
      using trim_evicts_oldest[OF dist] by blast
    ultimately show ?thesis by blast
  qed
  have fail: "heartbeat_logs (log_heartbeat t d a v ?st) = heartbeat_logs ?st"
    if "insert_heartbeat_log t d a v ?st = Inl e" for e
    using that by (simp add: log_heartbeat_def)
  from bound trim fail show ?thesis by blast
qed

lemmas eval_log_heartbeat =
  log_heartbeat_def insert_heartbeat_log_def heartbeat_version_def sqlite_bind_int_def
  isdigit_def is_digit_char_def is_decimal_char_def int_of_digit_str_def decimal_value_def
  int_max_str_digits_def str_int_def str_nat.simps trim_heartbeat_logs_def recent_ids_def

text \<open>
  A log of at most 1000 rows is not trimmed, so a run of 1000 calls fills the log with
  the rows 1 to 1000. The next insert brings it to 1001 rows, and the trim removes the
  row with the oldest timestamp.
\<close>

lemma trim_short_log:
  assumes "distinct (map hl_id logs)" "length logs \<le> 1000"
  shows "trim_heartbeat_logs logs = logs"
  using assms(2) by (simp add: trim_eq_filter_recent[OF assms(1)])

lemma log_heartbeat_calls_append:
  "log_heartbeat_calls (xs @ ys) st = log_heartbeat_calls ys (log_heartbeat_calls xs st)"
  by (induction xs st rule: log_heartbeat_calls.induct) simp_all

lemma hl_id_log_rows: "map hl_id (map log_row xs) = xs"
  by (induction xs) (simp_all add: log_row_def)

lemma full_log_state:
  "n \<le> 1000 \<Longrightarrow>
     log_heartbeat_calls (full_log_calls n) init_state =
       init_state\<lparr>heartbeat_logs := map log_row [1..<Suc n], heartbeat_seq := n\<rparr>"
proof (induction n)
  case 0
  then show ?case by (simp add: full_log_calls_def init_state_def)
next
  case (Suc n)
  have calls: "full_log_calls (Suc n) =
      full_log_calls n @ [(int (Suc n), JStr ''A'', JStr ''10.0.0.1'', JNull)]"
    by (simp add: full_log_calls_def)
  have rows: "map log_row [1..<Suc n] @ [log_row (Suc n)] = map log_row [1..<Suc (Suc n)]"
    by simp
  have "distinct (map hl_id (map log_row [1..<Suc (Suc n)]))"
    by (simp only: hl_id_log_rows distinct_upt)
  moreover have "length (map log_row [1..<Suc (Suc n)]) \<le> 1000"
    using Suc.prems by simp
  ultimately have trim: "trim_heartbeat_logs (map log_row [1..<Suc (Suc n)]) =
      map log_row [1..<Suc (Suc n)]"
    by (rule trim_short_log)
  have ins: "insert_heartbeat_log (int (Suc n)) (JStr ''A'') (JStr ''10.0.0.1'') JNull
      (init_state\<lparr>heartbeat_logs := map log_row [1..<Suc n], heartbeat_seq := n\<rparr>) =
        Inr (map log_row [1..<Suc (Suc n)])"
    unfolding rows[symmetric]
    by (simp add: insert_heartbeat_log_def heartbeat_version_def sqlite_bind_int_def log_row_def)
  show ?case
    using Suc ins trim
    by (simp add: calls log_heartbeat_calls_append log_heartbeat_def del: upt_Suc)
qed

lemma full_log_insert:
  "insert_heartbeat_log 2000 (JStr ''B'') (JStr ''10.0.0.2'') JNull
     (log_heartbeat_calls (full_log_calls 1000) init_state) =
   Inr (map log_row [1..<1001] @
     [\<lparr>hl_id = 1001, hl_device_id = ''B'', hl_ip_address = ''10.0.0.2'', hl_timestamp = 2000,
       hl_version = None\<rparr>])"
  by (simp add: full_log_state insert_heartbeat_log_def heartbeat_version_def sqlite_bind_int_def
      del: upt_Suc)

theorem heartbeat_log_bounded_oldest_evicted_witness:
  "log_row 1 \<notin> set (heartbeat_logs (log_heartbeat 2000 (JStr ''B'') (JStr ''10.0.0.2'') JNull
       (log_heartbeat_calls (full_log_calls 1000) init_state))) \<and>
   length (heartbeat_logs (log_heartbeat 2000 (JStr ''B'') (JStr ''10.0.0.2'') JNull
       (log_heartbeat_calls (full_log_calls 1000) init_state))) = 1000"
proof -
  let ?new = "\<lparr>hl_id = 1001, hl_device_id = ''B'', hl_ip_address = ''10.0.0.2'',
       hl_timestamp = 2000, hl_version = None\<rparr>"
  let ?L = "map log_row [1..<1001] @ [?new]"
  let ?T = "trim_heartbeat_logs ?L"
  let ?after = "heartbeat_logs (log_heartbeat 2000 (JStr ''B'') (JStr ''10.0.0.2'') JNull
       (log_heartbeat_calls (full_log_calls 1000) init_state))"
  from heartbeat_log_bounded_oldest_evicted[of "full_log_calls 1000" 2000 "JStr ''B''"
      "JStr ''10.0.0.2''" JNull] full_log_insert
  have after: "?after = ?T"
    and sub: "set ?T \<subseteq> set ?L"
    and len: "length ?T = 1000"
    and old: "\<forall>e\<in>set ?L. e \<notin> set ?T \<longrightarrow> (\<forall>k\<in>set ?T. hl_timestamp e \<le> hl_timestamp k)"
    by simp_all
  have dist: "distinct ?L"
    by (auto simp: distinct_map inj_on_def log_row_def)
  have c1: "card (set ?L) = length ?L" using dist by (rule distinct_card)
  have c2: "length ?L = 1001" by simp
  have c3: "card (set ?T) \<le> length ?T" by (rule card_length)
  have "set ?L \<noteq> set ?T"
  proof
    assume "set ?L = set ?T"
    then have "card (set ?L) = card (set ?T)" by (rule arg_cong)
    with c1 c2 c3 len show False by linarith
  qed
  with sub obtain e where e: "e \<in> set ?L" "e \<notin> set ?T" by auto
  have first: "log_row 1 \<notin> set ?T"
  proof
    assume kept: "log_row 1 \<in> set ?T"
    with old e have "hl_timestamp e \<le> hl_timestamp (log_row 1)" by blast
    then have "hl_timestamp e \<le> 1" by (simp add: log_row_def)
    with e(1) have "e = log_row 1" by (auto simp: log_row_def)
    with e(2) kept show False by simp
  qed
  from first len show ?thesis by (simp only: after) simp
qed

subsection \<open>The stored version\<close>

lemma str_nat_not_empty: "str_nat n \<noteq> []"
  by (subst str_nat.simps) simp

lemma str_nat_decimal: "list_all is_decimal_char (str_nat n)"
proof (induction n rule: str_nat.induct)
  case (1 n)
  have digit: "is_decimal_char (''0123456789'' ! k)" if "k < 10" for k
  proof -
    have "''0123456789'' ! k \<in> set ''0123456789''"
      using that by (intro nth_mem) simp
    then show ?thesis by (simp only: is_decimal_char_def)
  qed
  show ?case
  proof (cases "n < 10")
    case True
    then show ?thesis by (subst str_nat.simps) (simp add: digit)
  next
    case False
    with 1 show ?thesis by (subst str_nat.simps) (simp add: digit)
  qed
qed

lemma isdigit_str_int_pos: "0 \<le> n \<Longrightarrow> isdigit (str_int n)"
  using str_nat_decimal[of "nat n"] str_nat_not_empty[of "nat n"]
  by (auto simp: isdigit_def str_int_def is_digit_char_def list_all_iff)

lemma not_isdigit_str_int_neg: "n < 0 \<Longrightarrow> \<not> isdigit (str_int n)"
  by (simp add: isdigit_def str_int_def is_digit_char_def is_decimal_char_def)

lemma decimal_isdigit: "s \<noteq> [] \<Longrightarrow> list_all is_decimal_char s \<Longrightarrow> isdigit s"
  by (auto simp: isdigit_def is_digit_char_def list_all_iff)

text \<open>
  Claim C8, as stated, fails: the integer 0 is a non-negative integer, and the entry is
  stored with no version, because the guard \<^verbatim>\<open>version and ...\<close> takes 0 for an absent
  value.
\<close>

theorem version_zero_counterexample:
  "insert_heartbeat_log 100 (JStr ''A'') (JStr ''10.0.0.1'') (JInt 0) init_state =
     Inr [\<lparr>hl_id = 1, hl_device_id = ''A'', hl_ip_address = ''10.0.0.1'', hl_timestamp = 100,
           hl_version = None\<rparr>] \<and>
   heartbeat_logs (log_heartbeat 100 (JStr ''A'') (JStr ''10.0.0.1'') (JInt 0) init_state) =
     [\<lparr>hl_id = 1, hl_device_id = ''A'', hl_ip_address = ''10.0.0.1'', hl_timestamp = 100,
        hl_version = None\<rparr>]"
  by (simp add: init_state_def eval_log_heartbeat)

text \<open>
  The row a call inserts is subject to the trim of the same call. It is in the log after
  the call when fewer than 1000 of the rows already there have a timestamp at or after
  its own, and it is not when 1000 or more of them have a later timestamp; neither
  depends on the order the query takes among equal timestamps.
\<close>

lemma new_row_survives_trim:
  assumes d: "distinct (map hl_id (logs @ [new]))"
    and c: "length (filter (\<lambda>r. hl_timestamp new \<le> hl_timestamp r) logs) < 1000"
  shows "new \<in> set (trim_heartbeat_logs (logs @ [new]))"
proof (rule ccontr)
  let ?S = "sort_key (\<lambda>r. - hl_timestamp r) (logs @ [new])"
  let ?T = "take 1000 ?S"
  let ?F = "filter (\<lambda>r. hl_timestamp new \<le> hl_timestamp r) logs"
  assume "new \<notin> set (trim_heartbeat_logs (logs @ [new]))"
  then have nT: "new \<notin> set ?T" by (simp add: set_trim[OF d])
  have "new \<in> set (?T @ drop 1000 ?S)" by simp
  with nT have nD: "new \<in> set (drop 1000 ?S)" by (simp del: append_take_drop_id)
  then have "drop 1000 ?S \<noteq> []" by auto
  then have lenT: "length ?T = 1000" by simp
  have "sorted (map (\<lambda>r. - hl_timestamp r) (?T @ drop 1000 ?S))" by simp
  then have ord: "\<forall>x\<in>set ?T. \<forall>y\<in>set (drop 1000 ?S). - hl_timestamp x \<le> - hl_timestamp y"
    by (simp only: map_append sorted_append) auto
  have "set ?T \<subseteq> set ?F"
  proof
    fix x assume x: "x \<in> set ?T"
    then have "x \<in> set ?S" by (rule in_set_takeD)
    then have "x \<in> set (logs @ [new])" by simp
    moreover from x nT have "x \<noteq> new" by auto
    ultimately have "x \<in> set logs" by simp
    moreover from ord x nD have "hl_timestamp new \<le> hl_timestamp x" by auto
    ultimately show "x \<in> set ?F" by simp
  qed
  moreover have "finite (set ?F)" by simp
  ultimately have "card (set ?T) \<le> card (set ?F)" by (rule card_mono[rotated])
  moreover have "distinct (logs @ [new])" using d by (metis distinct_map)
  then have "distinct ?S" by (simp only: distinct_sort)
  then have "distinct ?T" by (rule distinct_take)
  then have "card (set ?T) = length ?T" by (rule distinct_card)
  moreover have "card (set ?F) \<le> length ?F" by (rule card_length)
  ultimately show False using lenT c by linarith
qed

lemma new_row_evicted_by_trim:
  assumes d: "distinct (map hl_id (logs @ [new]))"
    and c: "1000 \<le> length (filter (\<lambda>r. hl_timestamp new < hl_timestamp r) logs)"
  shows "new \<notin> set (trim_heartbeat_logs (logs @ [new]))"
proof
  let ?S = "sort_key (\<lambda>r. - hl_timestamp r) (logs @ [new])"
  let ?T = "take 1000 ?S"
  let ?F = "filter (\<lambda>r. hl_timestamp new < hl_timestamp r) logs"
  assume "new \<in> set (trim_heartbeat_logs (logs @ [new]))"
  then have nT: "new \<in> set ?T" by (simp add: set_trim[OF d])
  have dl: "distinct (logs @ [new])" using d by (metis distinct_map)
  have "sorted (map (\<lambda>r. - hl_timestamp r) (?T @ drop 1000 ?S))" by simp
  then have ord: "\<forall>x\<in>set ?T. \<forall>y\<in>set (drop 1000 ?S). - hl_timestamp x \<le> - hl_timestamp y"
    by (simp only: map_append sorted_append) auto
  have "set (new # ?F) \<subseteq> set ?T"
  proof
    fix x assume "x \<in> set (new # ?F)"
    then consider "x = new" | "x \<in> set logs" "hl_timestamp new < hl_timestamp x" by auto
    then show "x \<in> set ?T"
    proof cases
      case 1
      with nT show ?thesis by simp
    next
      case 2
      have "x \<in> set (?T @ drop 1000 ?S)" using 2(1) by simp
      moreover have "x \<notin> set (drop 1000 ?S)"
      proof
        assume "x \<in> set (drop 1000 ?S)"
        with ord nT have "- hl_timestamp new \<le> - hl_timestamp x" by blast
        with 2(2) show False by simp
      qed
      ultimately show ?thesis by (simp del: append_take_drop_id)
    qed
  qed
  moreover have "finite (set ?T)" by simp
  ultimately have "card (set (new # ?F)) \<le> card (set ?T)" by (rule card_mono[rotated])
  moreover have "distinct (new # ?F)" using dl by auto
  then have "card (set (new # ?F)) = length (new # ?F)" by (rule distinct_card)
  moreover have "card (set ?T) \<le> length ?T" by (rule card_length)
  moreover have "length ?T \<le> 1000" by simp
  moreover have "length (new # ?F) = Suc (length ?F)" by simp
  ultimately show False using c by linarith
qed

text \<open>
  Claim C8, amended. After any run of calls, a \<open>log_heartbeat\<close> call whose version is
  falsy (null, false, the integer 0, the empty string) or has a text not made of digits
  only, such as a negative integer or a word, inserts its entry with the version absent. A
  call whose version is a positive integer below \<open>2^63\<close>, or a string of at most 4300
  ASCII decimal digits with a value below \<open>2^63\<close>, inserts its entry with that integer as
  version. In each case the log after the call is the trimmed table: the entry is in it
  when fewer than 1000 earlier entries have a timestamp at or after the call's, and the
  call's own trim removes it when 1000 or more earlier entries have a later timestamp.
\<close>

theorem heartbeat_version_stored:
  assumes version:
      "ver = None \<and> (\<not> py_truthy v \<or> \<not> isdigit (py_str v)) \<or>
       (\<exists>n. v = JInt n \<and> n \<le> 0 \<and> ver = None) \<or>
       (\<exists>n. v = JInt n \<and> 0 < n \<and> n < 2 ^ 63 \<and> ver = Some n) \<or>
       (\<exists>s. v = JStr s \<and> s \<noteq> [] \<and> list_all is_decimal_char s \<and> length s \<le> 4300 \<and>
            decimal_value s < 2 ^ 63 \<and> ver = Some (int (decimal_value s)))"
    and state: "st = log_heartbeat_calls cs init_state"
    and row: "row = \<lparr>hl_id = Suc (heartbeat_seq st), hl_device_id = take 255 (py_str d),
         hl_ip_address = take 45 (py_str a), hl_timestamp = t, hl_version = ver\<rparr>"
  shows "insert_heartbeat_log t d a v st = Inr (heartbeat_logs st @ [row]) \<and>
    heartbeat_logs (log_heartbeat t d a v st) = trim_heartbeat_logs (heartbeat_logs st @ [row]) \<and>
    (length (filter (\<lambda>r. t \<le> hl_timestamp r) (heartbeat_logs st)) < 1000 \<longrightarrow>
       row \<in> set (heartbeat_logs (log_heartbeat t d a v st))) \<and>
    (1000 \<le> length (filter (\<lambda>r. t < hl_timestamp r) (heartbeat_logs st)) \<longrightarrow>
       row \<notin> set (heartbeat_logs (log_heartbeat t d a v st)))"
proof -
  have falsy: "heartbeat_version v = Inr None" if "\<not> py_truthy v \<or> \<not> isdigit (py_str v)" for v
    using that by (auto simp: heartbeat_version_def)
  from version consider
      (absent) "ver = None" "\<not> py_truthy v \<or> \<not> isdigit (py_str v)"
    | (nonpos) n where "v = JInt n" "n \<le> 0" "ver = None"
    | (pos) n where "v = JInt n" "0 < n" "n < 2 ^ 63" "ver = Some n"
    | (digits) s where "v = JStr s" "s \<noteq> []" "list_all is_decimal_char s" "length s \<le> 4300"
        "decimal_value s < 2 ^ 63" "ver = Some (int (decimal_value s))"
    by blast
  then have hv: "heartbeat_version v = Inr ver \<and> sqlite_bind_int ver = Inr ver"
  proof cases
    case absent
    then show ?thesis using falsy[of v] by (simp add: sqlite_bind_int_def)
  next
    case nonpos
    then have "\<not> py_truthy v \<or> \<not> isdigit (py_str v)"
      using not_isdigit_str_int_neg[of n] by (cases "n = 0") simp_all
    then show ?thesis using falsy[of v] nonpos(3) by (simp add: sqlite_bind_int_def)
  next
    case pos
    then show ?thesis
      using isdigit_str_int_pos[of n] by (simp add: heartbeat_version_def sqlite_bind_int_def)
  next
    case digits
    have "int (decimal_value s) < 2 ^ 63"
      using digits(5) by (metis of_nat_less_iff of_nat_numeral of_nat_power)
    then show ?thesis
      using digits decimal_isdigit[OF digits(2,3)]
      by (simp add: heartbeat_version_def sqlite_bind_int_def int_of_digit_str_def
          int_max_str_digits_def)
  qed
  then have ins: "insert_heartbeat_log t d a v st = Inr (heartbeat_logs st @ [row])"
    by (simp add: insert_heartbeat_log_def row)
  then have after: "heartbeat_logs (log_heartbeat t d a v st) =
      trim_heartbeat_logs (heartbeat_logs st @ [row])"
    by (simp add: log_heartbeat_def)
  have ok: "log_ids_ok st"
    unfolding state by (rule log_heartbeat_calls_ids_ok[OF init_state_ids_ok])
  have dist: "distinct (map hl_id (heartbeat_logs st @ [row]))"
    by (rule insert_keeps_ids_distinct(1)[OF ok ins])
  have ts: "hl_timestamp row = t" by (simp add: row)
  have keep: "length (filter (\<lambda>r. hl_timestamp row \<le> hl_timestamp r) (heartbeat_logs st)) < 1000
      \<Longrightarrow> row \<in> set (trim_heartbeat_logs (heartbeat_logs st @ [row]))"
    by (rule new_row_survives_trim[OF dist])
  have evict: "1000 \<le> length (filter (\<lambda>r. hl_timestamp row < hl_timestamp r) (heartbeat_logs st))
      \<Longrightarrow> row \<notin> set (trim_heartbeat_logs (heartbeat_logs st @ [row]))"
    by (rule new_row_evicted_by_trim[OF dist])
  from keep[unfolded ts] evict[unfolded ts] ins after show ?thesis by simp
qed

lemma full_log_newer_rows:
  "filter (\<lambda>r. 0 < hl_timestamp r) (map log_row [1..<1001]) = map log_row [1..<1001]"
  by (rule filter_True) (auto simp: log_row_def)

lemma full_log_no_newer_rows:
  "filter (\<lambda>r. 2000 \<le> hl_timestamp r) (map log_row [1..<1001]) = []"
  by (auto simp: filter_empty_conv log_row_def)

theorem heartbeat_version_stored_witness:
  "heartbeat_logs (log_heartbeat 100 (JStr ''A'') (JStr ''10.0.0.1'') (JStr ''abc'') init_state) =
     [\<lparr>hl_id = 1, hl_device_id = ''A'', hl_ip_address = ''10.0.0.1'', hl_timestamp = 100,
        hl_version = None\<rparr>] \<and>
   heartbeat_logs (log_heartbeat 100 (JStr ''A'') (JStr ''10.0.0.1'') (JInt (- 4)) init_state) =
     [\<lparr>hl_id = 1, hl_device_id = ''A'', hl_ip_address = ''10.0.0.1'', hl_timestamp = 100,
        hl_version = None\<rparr>] \<and>
   heartbeat_logs (log_heartbeat 100 (JStr ''A'') (JStr ''10.0.0.1'') (JInt 1003) init_state) =
     [\<lparr>hl_id = 1, hl_device_id = ''A'', hl_ip_address = ''10.0.0.1'', hl_timestamp = 100,
        hl_version = Some 1003\<rparr>] \<and>
   heartbeat_logs (log_heartbeat 100 (JStr ''A'') (JStr ''10.0.0.1'') (JStr ''042'') init_state) =
     [\<lparr>hl_id = 1, hl_device_id = ''A'', hl_ip_address = ''10.0.0.1'', hl_timestamp = 100,
        hl_version = Some 42\<rparr>] \<and>
   \<lparr>hl_id = 1001, hl_device_id = ''B'', hl_ip_address = ''10.0.0.2'', hl_timestamp = 2000,
        hl_version = Some 5\<rparr>
     \<in> set (heartbeat_logs (log_heartbeat 2000 (JStr ''B'') (JStr ''10.0.0.2'') (JInt 5)
           (log_heartbeat_calls (full_log_calls 1000) init_state))) \<and>
   \<lparr>hl_id = 1001, hl_device_id = ''B'', hl_ip_address = ''10.0.0.2'', hl_timestamp = 0,
        hl_version = Some 5\<rparr>
     \<notin> set (heartbeat_logs (log_heartbeat 0 (JStr ''B'') (JStr ''10.0.0.2'') (JInt 5)
           (log_heartbeat_calls (full_log_calls 1000) init_state)))"
proof -
  have trim1: "trim_heartbeat_logs [r] = [r]" for r
    by (simp add: trim_heartbeat_logs_def recent_ids_def)
  have fresh: "heartbeat_logs (log_heartbeat 100 (JStr ''A'') (JStr ''10.0.0.1'') v init_state) =
     [\<lparr>hl_id = 1, hl_device_id = ''A'', hl_ip_address = ''10.0.0.1'', hl_timestamp = 100,
        hl_version = ver\<rparr>]"
    if "ver = None \<and> (\<not> py_truthy v \<or> \<not> isdigit (py_str v)) \<or>
       (\<exists>n. v = JInt n \<and> n \<le> 0 \<and> ver = None) \<or>
       (\<exists>n. v = JInt n \<and> 0 < n \<and> n < 2 ^ 63 \<and> ver = Some n) \<or>
       (\<exists>s. v = JStr s \<and> s \<noteq> [] \<and> list_all is_decimal_char s \<and> length s \<le> 4300 \<and>
            decimal_value s < 2 ^ 63 \<and> ver = Some (int (decimal_value s)))" for v ver
    using heartbeat_version_stored[OF that refl refl,
        where cs = "[]" and d = "JStr ''A''" and a = "JStr ''10.0.0.1''" and t = 100]
    by (simp add: init_state_def trim1)
  have full: "heartbeat_logs (log_heartbeat_calls (full_log_calls 1000) init_state) =
      map log_row [1..<1001]"
    and seq: "heartbeat_seq (log_heartbeat_calls (full_log_calls 1000) init_state) = 1000"
    by (simp_all add: full_log_state del: upt_Suc)
  have five: "ver = None \<and> (\<not> py_truthy (JInt 5) \<or> \<not> isdigit (py_str (JInt 5))) \<or>
       (\<exists>n. JInt 5 = JInt n \<and> n \<le> 0 \<and> ver = None) \<or>
       (\<exists>n. JInt 5 = JInt n \<and> 0 < n \<and> n < 2 ^ 63 \<and> ver = Some n) \<or>
       (\<exists>s. JInt 5 = JStr s \<and> s \<noteq> [] \<and> list_all is_decimal_char s \<and> length s \<le> 4300 \<and>
            decimal_value s < 2 ^ 63 \<and> ver = Some (int (decimal_value s)))"
    if "ver = Some 5" for ver
    using that by simp
  note late = heartbeat_version_stored[OF five[OF refl] refl refl,
      where cs = "full_log_calls 1000" and d = "JStr ''B''" and a = "JStr ''10.0.0.2''"
        and t = 2000]
  note early = heartbeat_version_stored[OF five[OF refl] refl refl,
      where cs = "full_log_calls 1000" and d = "JStr ''B''" and a = "JStr ''10.0.0.2''"
        and t = 0]
  have few: "length (filter (\<lambda>r. 2000 \<le> hl_timestamp r)
      (heartbeat_logs (log_heartbeat_calls (full_log_calls 1000) init_state))) < 1000"
    by (simp only: full full_log_no_newer_rows) simp
  have many: "1000 \<le> length (filter (\<lambda>r. 0 < hl_timestamp r)
      (heartbeat_logs (log_heartbeat_calls (full_log_calls 1000) init_state)))"
    by (simp only: full full_log_newer_rows) simp
  have kept: "\<lparr>hl_id = 1001, hl_device_id = ''B'', hl_ip_address = ''10.0.0.2'',
        hl_timestamp = 2000, hl_version = Some 5\<rparr>
     \<in> set (heartbeat_logs (log_heartbeat 2000 (JStr ''B'') (JStr ''10.0.0.2'') (JInt 5)
           (log_heartbeat_calls (full_log_calls 1000) init_state)))"
    using late[THEN conjunct2, THEN conjunct2, THEN conjunct1, rule_format, OF few]
    by (simp add: seq)
  have gone: "\<lparr>hl_id = 1001, hl_device_id = ''B'', hl_ip_address = ''10.0.0.2'',
        hl_timestamp = 0, hl_version = Some 5\<rparr>
     \<notin> set (heartbeat_logs (log_heartbeat 0 (JStr ''B'') (JStr ''10.0.0.2'') (JInt 5)
           (log_heartbeat_calls (full_log_calls 1000) init_state)))"
    using early[THEN conjunct2, THEN conjunct2, THEN conjunct2, rule_format, OF many]
    by (simp add: seq)
  have a: "isdigit ''abc'' = False" "isdigit (str_int (- 4)) = False"
    by (simp_all add: isdigit_def is_digit_char_def is_decimal_char_def str_int_def)
  have b: "list_all is_decimal_char ''042''" "decimal_value ''042'' = 42"
    by (simp_all add: is_decimal_char_def decimal_value_def)
  show ?thesis
    using fresh[of None "JStr ''abc''"] fresh[of None "JInt (- 4)"]
      fresh[of "Some 1003" "JInt 1003"] fresh[of "Some 42" "JStr ''042''"] kept gone
    by (simp add: a b is_decimal_char_def)
qed

text \<open>
  Outside these cases the insert can raise, and the call then stores nothing: a string
  with a superscript digit passes \<open>isdigit\<close> and fails the conversion, and an integer of
  64 bits or more cannot be bound.
\<close>

lemma log_heartbeat_fails_on_superscript:
  "log_heartbeat t d a (JStr [CHR 0xB2]) st = st"
  by (simp add: eval_log_heartbeat)

lemma log_heartbeat_fails_on_overflow:
  "log_heartbeat t d a (JInt (2 ^ 63)) st = st"
  using isdigit_str_int_pos[of "2 ^ 63"]
  by (simp add: log_heartbeat_def insert_heartbeat_log_def heartbeat_version_def sqlite_bind_int_def)

section \<open>The telemetry store\<close>

lemma py_truthy_str_not_empty: "py_truthy v \<Longrightarrow> py_str v \<noteq> []"
  by (cases v) (simp_all add: str_int_def str_nat_not_empty)

lemma report_device_id_not_empty: "report_device_id body = Some d \<Longrightarrow> d \<noteq> []"
  by (auto simp: report_device_id_def dict_get_def dict_get_default_def py_truthy_str_not_empty
      split: if_splits option.splits)

lemma update_device_info_first:
  assumes "report_device_id body = Some d" "device_info st d = None"
  shows "\<exists>row. device_info (update_device_info t body a st) d = Some row \<and>
           di_created_at row = t \<and> di_last_seen row = t"
  using assms report_device_id_not_empty[OF assms(1)]
  by (simp add: update_device_info_def)

lemma update_device_info_again:
  assumes "report_device_id body = Some d" "device_info st d = Some r"
  shows "\<exists>row. device_info (update_device_info t body a st) d = Some row \<and>
           di_created_at row = di_created_at r \<and> di_last_seen row = t"
  using assms report_device_id_not_empty[OF assms(1)]
  by (simp add: update_device_info_def)

lemma update_device_info_other:
  assumes "report_device_id body \<noteq> Some d"
  shows "device_info (update_device_info t body a st) d = device_info st d"
  using assms by (auto simp: update_device_info_def split: option.splits)

lemma calls_for_Cons:
  "calls_for d ((t, body, a) # cs) =
     (if report_device_id body = Some d then (t, body, a) # calls_for d cs else calls_for d cs)"
  by (simp add: calls_for_def)

lemma calls_existing_record:
  "device_info st d = Some r \<Longrightarrow>
     \<exists>row. device_info (update_device_info_calls cs st) d = Some row \<and>
       di_created_at row = di_created_at r \<and>
       di_last_seen row = (if calls_for d cs = [] then di_last_seen r else fst (last (calls_for d cs)))"
proof (induction cs st arbitrary: r rule: update_device_info_calls.induct)
  case (1 st)
  then show ?case by (simp add: calls_for_def)
next
  case (2 t body a cs st)
  show ?case
  proof (cases "report_device_id body = Some d")
    case True
    from update_device_info_again[OF True "2.prems", of t a] obtain r' where
      r': "device_info (update_device_info t body a st) d = Some r'"
          "di_created_at r' = di_created_at r" "di_last_seen r' = t"
      by blast
    from "2.IH"[OF r'(1)] r'(2,3) True show ?thesis
      by (auto simp: calls_for_Cons)
  next
    case False
    then have "device_info (update_device_info t body a st) d = Some r"
      using "2.prems" by (simp add: update_device_info_other)
    from "2.IH"[OF this] False show ?thesis
      by (auto simp: calls_for_Cons)
  qed
qed

lemma calls_new_record:
  "device_info st d = None \<Longrightarrow> calls_for d cs \<noteq> [] \<Longrightarrow>
     \<exists>row. device_info (update_device_info_calls cs st) d = Some row \<and>
       di_created_at row = fst (hd (calls_for d cs)) \<and>
       di_last_seen row = fst (last (calls_for d cs))"
proof (induction cs st rule: update_device_info_calls.induct)
  case (1 st)
  then show ?case by (simp add: calls_for_def)
next
  case (2 t body a cs st)
  show ?case
  proof (cases "report_device_id body = Some d")
    case True
    from update_device_info_first[OF True "2.prems"(1), of t a] obtain r' where
      r': "device_info (update_device_info t body a st) d = Some r'"
          "di_created_at r' = t" "di_last_seen r' = t"
      by blast
    from calls_existing_record[OF r'(1), of cs] r'(2,3) True show ?thesis
      by (auto simp: calls_for_Cons)
  next
    case False
    then have "device_info (update_device_info t body a st) d = None"
      using "2.prems" by (simp add: update_device_info_other)
    from "2.IH"[OF this] False "2.prems"(2) show ?thesis
      by (simp add: calls_for_Cons)
  qed
qed

lemma calls_no_record:
  "device_info st d = None \<Longrightarrow> calls_for d cs = [] \<Longrightarrow>
     device_info (update_device_info_calls cs st) d = None"
  by (induction cs st rule: update_device_info_calls.induct)
     (auto simp: calls_for_Cons update_device_info_other split: if_splits)

lemma sorted_hd_le_last:
  fixes xs :: "int list"
  shows "sorted xs \<Longrightarrow> xs \<noteq> [] \<Longrightarrow> hd xs \<le> last xs"
  by (cases xs) auto

lemma calls_for_times_sorted:
  assumes "sorted (map fst cs)" "calls_for d cs \<noteq> []"
  shows "fst (hd (calls_for d cs)) \<le> fst (last (calls_for d cs))"
proof -
  have "sorted (map fst (calls_for d cs))"
    using assms(1) unfolding calls_for_def by (rule sorted_filter)
  then have "hd (map fst (calls_for d cs)) \<le> last (map fst (calls_for d cs))"
    using assms(2) by (intro sorted_hd_le_last) simp_all
  then show ?thesis using assms(2) by (simp add: hd_map last_map)
qed

text \<open>
  Claim C4, as stated, fails in its last part: \<open>last_seen\<close> is the reading of
  \<^verbatim>\<open>datetime.now()\<close> at the latest call, whatever it is, and nothing compares it with
  \<open>created_at\<close>. Two reports of one device at the readings 500 and then 400 leave a
  record with \<open>created_at = 500\<close> and \<open>last_seen = 400\<close>.
\<close>

theorem last_seen_before_created_at_counterexample:
  "device_info (update_device_info_calls backward_reports init_state) ''A'' =
     Some \<lparr>di_hostname = [], di_username = [], di_os = [], di_cpu = [], di_memory = [],
           di_version = [], di_uuid = [], di_created_at = 500, di_last_seen = 400,
           di_last_ip = ''10.0.0.7''\<rparr>"
  by (simp add: backward_reports_def init_state_def update_device_info_def report_device_id_def
      report_field_def dict_get_def dict_get_default_def)

text \<open>
  Claim C4, amended. In a run of \<open>update_device_info\<close> calls with at least one call for
  device \<open>d\<close>, starting where \<open>d\<close> has no record, the record of \<open>d\<close> has the clock
  reading of the first call for \<open>d\<close> as \<open>created_at\<close> and that of the last call for
  \<open>d\<close> as \<open>last_seen\<close>. A record that exists keeps its \<open>created_at\<close> through any
  run. When the clock readings of the successive calls do not decrease, every record
  stored by a run from the empty database has \<open>created_at \<le> last_seen\<close>.
\<close>

theorem created_at_set_once_last_seen_latest:
  "(device_info st d = None \<longrightarrow> calls_for d cs \<noteq> [] \<longrightarrow>
      (\<exists>row. device_info (update_device_info_calls cs st) d = Some row \<and>
         di_created_at row = fst (hd (calls_for d cs)) \<and>
         di_last_seen row = fst (last (calls_for d cs)))) \<and>
   (\<forall>r. device_info st d = Some r \<longrightarrow>
      (\<exists>row. device_info (update_device_info_calls cs st) d = Some row \<and>
         di_created_at row = di_created_at r)) \<and>
   (\<forall>row. sorted (map fst cs) \<longrightarrow>
      device_info (update_device_info_calls cs init_state) d = Some row \<longrightarrow>
      di_created_at row \<le> di_last_seen row)"
proof -
  have inv: "di_created_at row \<le> di_last_seen row"
    if s: "sorted (map fst cs)"
      and row: "device_info (update_device_info_calls cs init_state) d = Some row" for row
  proof -
    have none: "device_info init_state d = None" by (simp add: init_state_def)
    have ne: "calls_for d cs \<noteq> []"
      using calls_no_record[OF none, of cs] row by auto
    from calls_new_record[OF none ne] row calls_for_times_sorted[OF s ne]
    show ?thesis by auto
  qed
  show ?thesis
    using calls_new_record[of st d cs] calls_existing_record[of st d _ cs] inv
    by blast
qed

theorem created_at_set_once_last_seen_latest_witness:
  "sorted (map fst example_reports) \<and>
   (\<exists>row. device_info (update_device_info_calls example_reports init_state) ''A'' = Some row \<and>
      di_created_at row = 100 \<and> di_last_seen row = 250 \<and>
      di_created_at row \<le> di_last_seen row)"
  using created_at_set_once_last_seen_latest[of init_state "''A''" example_reports]
  by (auto simp: example_reports_def calls_for_def report_device_id_def dict_get_def
      dict_get_default_def init_state_def)

lemma update_device_info_row:
  assumes "report_device_id body = Some d"
  shows "device_info (update_device_info t body a st) d =
     Some \<lparr>di_hostname = report_field body ''hostname'' 255,
           di_username = report_field body ''username'' 255,
           di_os = report_field body ''os'' 500,
           di_cpu = report_field body ''cpu'' 500,
           di_memory = report_field body ''memory'' 100,
           di_version = report_field body ''version'' 50,
           di_uuid = report_field body ''uuid'' 255,
           di_created_at = (case device_info st d of None \<Rightarrow> t | Some r \<Rightarrow> di_created_at r),
           di_last_seen = t,
           di_last_ip = take 45 (py_str a)\<rparr>"
  using assms report_device_id_not_empty[OF assms]
  by (simp add: update_device_info_def split: option.splits)

text \<open>
  Claim C6. A system-info request within the size limit whose body is an object with
  device id \<open>X\<close>, for an \<open>X\<close> that is not the id of any peer of the registry, is
  acknowledged; afterwards \<open>get_device_info\<close> returns the record stored for \<open>X\<close>, and no
  listing over that registry, in any state and at any time, has an entry for \<open>X\<close>.
\<close>

theorem sysinfo_unregistered_device_stored_not_listed:
  assumes "payload req = Some (JsonObject body)"
    and "\<not> over_limit (content_length req) 51200"
    and "report_device_id body = Some X"
    and "X \<notin> peer_id ` set (get_all_peer_ids f reg)"
  shows "fst (sysinfo now req st) = Ok \<and>
    get_device_info (JStr X) (snd (sysinfo now req st)) =
      Some \<lparr>di_hostname = report_field body ''hostname'' 255,
            di_username = report_field body ''username'' 255,
            di_os = report_field body ''os'' 500,
            di_cpu = report_field body ''cpu'' 500,
            di_memory = report_field body ''memory'' 100,
            di_version = report_field body ''version'' 50,
            di_uuid = report_field body ''uuid'' 255,
            di_created_at = (case device_info st X of None \<Rightarrow> now | Some r \<Rightarrow> di_created_at r),
            di_last_seen = now,
            di_last_ip = take 45 (client_ip req)\<rparr> \<and>
    (\<forall>clock st'. X \<notin> dev_id ` set (devices (get_devices clock f reg st')))"
proof -
  have "X \<notin> dev_id ` set (devices (get_devices clock f reg st'))" for clock st'
    using assms(4) devices_ids[of clock f reg st'] by (metis set_map)
  then show ?thesis
    using assms(1,2) update_device_info_row[OF assms(3), of now "JStr (client_ip req)" st]
    by (simp add: sysinfo_def get_device_info_def)
qed

theorem sysinfo_unregistered_device_stored_not_listed_witness:
  "get_device_info (JStr ''X'') (snd (sysinfo 300 example_sysinfo init_state)) =
      Some \<lparr>di_hostname = ''xray'', di_username = [], di_os = [], di_cpu = [], di_memory = [],
            di_version = [], di_uuid = [], di_created_at = 300, di_last_seen = 300,
            di_last_ip = ''10.0.0.9''\<rparr> \<and>
   ''X'' \<notin> dev_id ` set (devices (get_devices (\<lambda>i. 400) no_fromtimestamp example_registry
       (snd (sysinfo 300 example_sysinfo init_state))))"
  using sysinfo_unregistered_device_stored_not_listed[of example_sysinfo
      "[''id'' \<mapsto> JStr ''X'', ''hostname'' \<mapsto> JStr ''xray'']" "''X''" no_fromtimestamp
      example_registry 300 init_state]
  by (simp add: example_sysinfo_def over_limit_def report_device_id_def report_field_def
      dict_get_def dict_get_default_def example_peers init_state_def)

section \<open>The heartbeat handler\<close>

text \<open>
  Claim C7, as stated, fails: a heartbeat whose device id is the empty string is answered
  with the ok status, not with a validation error.
\<close>

theorem heartbeat_empty_id_counterexample:
  "heartbeat 100 101 empty_id_heartbeat init_state = (Ok, init_state)"
  by (simp add: heartbeat_def empty_id_heartbeat_def over_limit_def dict_get_def)

text \<open>
  Claim C7, amended. A heartbeat within the size limit whose body is an object with an
  empty or missing device id is acknowledged with the ok status and changes nothing. The
  handler answers with status 413 when the declared length is over 10240, else with
  status 500 when the body is not JSON, else with status 400 when the body is not an
  object, and with the ok status in every other case; a request that is not answered ok
  changes nothing.
\<close>

theorem heartbeat_empty_id_acknowledged:
  "(over_limit (content_length req) 10240 \<longrightarrow>
      heartbeat t_log now req st = (HTTPError 413, st)) \<and>
   (\<not> over_limit (content_length req) 10240 \<longrightarrow> payload req = None \<longrightarrow>
      heartbeat t_log now req st = (HTTPError 500, st)) \<and>
   (\<not> over_limit (content_length req) 10240 \<longrightarrow> payload req = Some JsonOther \<longrightarrow>
      heartbeat t_log now req st = (HTTPError 400, st)) \<and>
   (\<not> over_limit (content_length req) 10240 \<longrightarrow> payload req = Some (JsonObject body) \<longrightarrow>
      fst (heartbeat t_log now req st) = Ok) \<and>
   (\<not> over_limit (content_length req) 10240 \<longrightarrow> payload req = Some (JsonObject body) \<longrightarrow>
      \<not> py_truthy (dict_get body ''id'') \<longrightarrow> heartbeat t_log now req st = (Ok, st)) \<and>
   (fst (heartbeat t_log now req st) \<noteq> Ok \<longleftrightarrow>
      over_limit (content_length req) 10240 \<or> payload req = None \<or> payload req = Some JsonOther) \<and>
   (fst (heartbeat t_log now req st) \<noteq> Ok \<longrightarrow> snd (heartbeat t_log now req st) = st)"
  by (auto simp: heartbeat_def Let_def split: option.splits json_doc.splits)

theorem heartbeat_empty_id_acknowledged_witness:
  "heartbeat 100 101 no_id_heartbeat init_state = (Ok, init_state) \<and>
   heartbeat 100 101 declared_oversize_heartbeat init_state = (HTTPError 413, init_state) \<and>
   heartbeat 100 101 not_json_heartbeat init_state = (HTTPError 500, init_state) \<and>
   heartbeat 100 101 array_heartbeat init_state = (HTTPError 400, init_state)"
  using heartbeat_empty_id_acknowledged[of no_id_heartbeat 100 101 init_state "[''ver'' \<mapsto> JInt 3]"]
    heartbeat_empty_id_acknowledged[of declared_oversize_heartbeat 100 101 init_state]
    heartbeat_empty_id_acknowledged[of not_json_heartbeat 100 101 init_state]
    heartbeat_empty_id_acknowledged[of array_heartbeat 100 101 init_state]
  by (simp add: no_id_heartbeat_def declared_oversize_heartbeat_def not_json_heartbeat_def
      array_heartbeat_def over_limit_def dict_get_def)

text \<open>
  The size check reads the \<^verbatim>\<open>Content-Length\<close> header: a declared length over 10240 is
  rejected with status 413 before the body is read, and nothing changes.
\<close>

lemma heartbeat_declared_oversize_rejected:
  "over_limit (content_length req) 10240 \<Longrightarrow> heartbeat t_log now req st = (HTTPError 413, st)"
  by (simp add: heartbeat_def)

text \<open>
  Claim C5 does not hold of the code. A request without a \<^verbatim>\<open>Content-Length\<close> header
  passes the size check whatever its size: the 15000-byte chunked heartbeat is parsed and
  acknowledged, and it writes both the presence table and the heartbeat log.
\<close>

theorem heartbeat_chunked_oversize_accepted:
  "well_framed chunked_oversize_heartbeat \<and>
   10240 < payload_size chunked_oversize_heartbeat \<and>
   fst (heartbeat 100 101 chunked_oversize_heartbeat init_state) = Ok \<and>
   online_devices (snd (heartbeat 100 101 chunked_oversize_heartbeat init_state)) ''A'' =
     Some \<lparr>last_heartbeat = 101, ip = ''10.0.0.5'',
           info = [''id'' \<mapsto> JStr ''A'', ''pad'' \<mapsto> JStr (replicate 14981 (CHR ''x''))]\<rparr> \<and>
   heartbeat_logs (snd (heartbeat 100 101 chunked_oversize_heartbeat init_state)) =
     [\<lparr>hl_id = 1, hl_device_id = ''A'', hl_ip_address = ''10.0.0.5'', hl_timestamp = 100,
       hl_version = None\<rparr>]"
  by (simp add: chunked_oversize_heartbeat_def well_framed_def heartbeat_def over_limit_def
      dict_get_def dict_get_default_def Let_def init_state_def eval_log_heartbeat)

section \<open>Device notes\<close>

text \<open>
  For a device id of at most 255 characters, reading a note back gives the text written,
  cut to 500 characters, and a second write replaces the first.
\<close>

lemma note_round_trip_short_id:
  assumes "length (py_str d) \<le> 255"
  shows "get_device_note d (update_device_note t d note st) = take 500 (py_str note)"
    and "get_device_note d (update_device_note t2 d note2 (update_device_note t d note st)) =
           take 500 (py_str note2)"
  using assms by (simp_all add: get_device_note_def update_device_note_def)

text \<open>
  Claim C9 does not hold of the code for longer device ids. \<open>update_device_note\<close> cuts
  the id to 255 characters before it writes; \<open>get_device_note\<close> looks the full id up. A
  note written for a 256-character id is stored under the first 255 characters, and
  reading it back under the id it was written for gives the empty string.
\<close>

theorem note_lost_for_long_device_id:
  "get_device_note (JStr long_device_id)
     (update_device_note 100 (JStr long_device_id) (JStr ''hello'') init_state) = [] \<and>
   get_device_note (JStr (take 255 long_device_id))
     (update_device_note 100 (JStr long_device_id) (JStr ''hello'') init_state) = ''hello''"
proof -
  have len: "length long_device_id = 256" "length (take 255 long_device_id) = 255"
    by (simp_all add: long_device_id_def)
  have "long_device_id \<noteq> take 255 long_device_id"
  proof
    assume "long_device_id = take 255 long_device_id"
    then have "length long_device_id = length (take 255 long_device_id)" by (rule arg_cong)
    with len show False by linarith
  qed
  then show ?thesis
    by (simp add: get_device_note_def update_device_note_def init_state_def)
qed

end
